theory Spec2Isabelle
  imports Complex_Main
begin

section \<open>JavaScript values at the ingestion boundary\<close>

text \<open>
  A number that \<open>JSON.parse\<close> returns is a finite double or, for a literal that overflows
  (\<open>1e999\<close>), an infinity; it is never \<open>NaN\<close>. A finite double is modelled as the real it
  denotes: clamping compares and selects, it does not round.
\<close>

datatype jsnum = NegInfinity | Fin real | Infinity

fun num_le :: "jsnum \<Rightarrow> jsnum \<Rightarrow> bool" where
  "num_le NegInfinity _ = True"
| "num_le _ Infinity = True"
| "num_le (Fin a) (Fin b) = (a \<le> b)"
| "num_le _ _ = False"

definition Math_min :: "jsnum \<Rightarrow> jsnum \<Rightarrow> jsnum" where
  "Math_min a b = (if num_le a b then a else b)"

definition Math_max :: "jsnum \<Rightarrow> jsnum \<Rightarrow> jsnum" where
  "Math_max a b = (if num_le a b then b else a)"

text \<open>
  The values \<open>JSON.parse\<close> can return, and \<open>undefined\<close>, which a property read gives for
  a property that is not there.
\<close>

datatype json =
    JUndefined
  | JNull
  | JBool bool
  | JNum jsnum
  | JStr string
  | JArr "json list"
  | JObj "(string \<times> json) list"

text \<open>A JavaScript object, as far as its own data properties go.\<close>

type_synonym jsobject = "string \<rightharpoonup> json"

datatype js_error = TypeError string | SyntaxError string | OtherError string

fun message :: "js_error \<Rightarrow> string" where
  "message (TypeError m) = m"
| "message (SyntaxError m) = m"
| "message (OtherError m) = m"

fun typeof :: "json \<Rightarrow> string" where
  "typeof JUndefined = ''undefined''"
| "typeof JNull = ''object''"
| "typeof (JBool _) = ''boolean''"
| "typeof (JNum _) = ''number''"
| "typeof (JStr _) = ''string''"
| "typeof (JArr _) = ''object''"
| "typeof (JObj _) = ''object''"

text \<open>The canonical decimal form of an array index, which is its property key.\<close>

fun index_key :: "nat \<Rightarrow> string" where
  "index_key n =
     (if n < 10 then [char_of (48 + n)] else index_key (n div 10) @ [char_of (48 + n mod 10)])"

definition indexed :: "'a list \<Rightarrow> (string \<times> 'a) list" where
  "indexed xs = zip (map index_key [0..<length xs]) xs"

text \<open>
  The own properties of a value. An object parsed from JSON owns exactly its members; an
  array and a string own their indices and \<open>length\<close>; the other values own nothing.
\<close>

fun own_property :: "json \<Rightarrow> string \<Rightarrow> json option" where
  "own_property (JObj kvs) k = map_of kvs k"
| "own_property (JArr xs) k =
     (if k = ''length'' then Some (JNum (Fin (real (length xs)))) else map_of (indexed xs) k)"
| "own_property (JStr s) k =
     (if k = ''length'' then Some (JNum (Fin (real (length s))))
      else map_of (indexed (map (\<lambda>c. JStr [c]) s)) k)"
| "own_property _ k = None"

text \<open>
  \<open>suggested.hasOwnProperty(key)\<close>. Reading a property of \<open>null\<close> or \<open>undefined\<close> throws.
  A member named \<open>hasOwnProperty\<close> shadows the inherited method with a value that cannot
  be called (JSON has no functions), so the call throws. Otherwise the inherited method
  answers. The wording of the two messages is the engine's.
\<close>

fun hasOwnProperty :: "json \<Rightarrow> string \<Rightarrow> js_error + bool" where
  "hasOwnProperty JUndefined k = Inl (TypeError ''Cannot read properties of undefined'')"
| "hasOwnProperty JNull k = Inl (TypeError ''Cannot read properties of null'')"
| "hasOwnProperty (JObj kvs) k =
     (case map_of kvs ''hasOwnProperty'' of
        Some v \<Rightarrow> Inl (TypeError ''suggested.hasOwnProperty is not a function'')
      | None \<Rightarrow> Inr (own_property (JObj kvs) k \<noteq> None))"
| "hasOwnProperty v k = Inr (own_property v k \<noteq> None)"

text \<open>
  \<open>suggested[key]\<close>. The handler reads a key only after \<open>hasOwnProperty\<close> has answered
  \<open>true\<close>, so inherited properties are left out: a key that is not owned reads as
  \<open>undefined\<close>.
\<close>

definition get_property :: "json \<Rightarrow> string \<Rightarrow> json" where
  "get_property v k = (case own_property v k of Some x \<Rightarrow> x | None \<Rightarrow> JUndefined)"

text \<open>
  The own enumerable properties that an object spread \<open>{...v}\<close> copies: an object's
  members, the elements of an array and the characters of a string under their indices
  (not \<open>length\<close>), and nothing for the other values.
\<close>

fun spread :: "json \<Rightarrow> jsobject" where
  "spread (JObj kvs) = map_of kvs"
| "spread (JArr xs) = map_of (indexed xs)"
| "spread (JStr s) = map_of (indexed (map (\<lambda>c. JStr [c]) s))"
| "spread _ = Map.empty"

section \<open>The settings model\<close>

text \<open>
  \<open>DEFAULT_VIDEO_SETTINGS\<close> of \<open>constants.ts\<close> in insertion order, which is the order of
  \<open>Object.keys\<close>, and the \<open>ranges\<close> table of \<open>handleSuggestSettings\<close>.
\<close>

definition DEFAULT_VIDEO_SETTINGS :: "(string \<times> json) list" where
  "DEFAULT_VIDEO_SETTINGS =
     [(''brightness'', JNum (Fin 100)),
      (''contrast'', JNum (Fin 100)),
      (''saturation'', JNum (Fin 100)),
      (''playbackSpeed'', JNum (Fin 1)),
      (''volume'', JNum (Fin 100)),
      (''flipHorizontal'', JBool False),
      (''enableRotatingLines'', JBool False),
      (''enablePixelNoise'', JBool False),
      (''audioPreservesPitch'', JBool True)]"

definition ranges :: "(string \<times> real \<times> real) list" where
  "ranges =
     [(''brightness'', 0, 200),
      (''contrast'', 0, 200),
      (''saturation'', 0, 200),
      (''playbackSpeed'', 1 / 2, 2),
      (''volume'', 0, 100)]"

record ingestion =
  newSettings :: jsobject
  allFieldsValid :: bool
  warned :: "string list"

definition quoted :: "string \<Rightarrow> string" where
  "quoted key = CHR 0x27 # key @ [CHR 0x27]"

definition mismatch_warning :: "string \<Rightarrow> json \<Rightarrow> json \<Rightarrow> string" where
  "mismatch_warning key dflt v =
     ''AI suggestion for '' @ quoted key @ '' has mismatched type. Expected '' @ typeof dflt @
     '', got '' @ typeof v @ ''. Using default.''"

definition missing_warning :: "string \<Rightarrow> string" where
  "missing_warning key = ''AI suggestion missing field '' @ quoted key @ ''. Using default.''"

text \<open>One call of the \<open>forEach\<close> callback, for the key \<open>key\<close> whose default is \<open>dflt\<close>.\<close>

fun validate_key :: "json \<Rightarrow> string \<times> json \<Rightarrow> ingestion \<Rightarrow> js_error + ingestion" where
  "validate_key suggested (key, dflt) st =
     (case hasOwnProperty suggested key of
        Inl err \<Rightarrow> Inl err
      | Inr False \<Rightarrow>
          Inr (st\<lparr>allFieldsValid := False, warned := warned st @ [missing_warning key]\<rparr>)
      | Inr True \<Rightarrow>
          (let suggestedValue = get_property suggested key
           in if typeof suggestedValue = typeof dflt then
                (case (suggestedValue, map_of ranges key) of
                   (JNum n, Some (lo, hi)) \<Rightarrow>
                     Inr (st\<lparr>newSettings := (newSettings st)
                             (key \<mapsto> JNum (Math_max (Fin lo) (Math_min (Fin hi) n)))\<rparr>)
                 | _ \<Rightarrow> Inr (st\<lparr>newSettings := (newSettings st)(key \<mapsto> suggestedValue)\<rparr>))
              else
                Inr (st\<lparr>allFieldsValid := False,
                         warned := warned st @ [mismatch_warning key dflt suggestedValue]\<rparr>)))"

fun forEach_key :: "json \<Rightarrow> (string \<times> json) list \<Rightarrow> ingestion \<Rightarrow> js_error + ingestion" where
  "forEach_key suggested [] st = Inr st"
| "forEach_key suggested (e # es) st =
     (case validate_key suggested e st of
        Inl err \<Rightarrow> Inl err
      | Inr st' \<Rightarrow> forEach_key suggested es st')"

text \<open>
  The validation block of \<open>handleSuggestSettings\<close>: \<open>newSettings\<close> starts as a copy of the
  defaults, and the callback runs over the keys of the defaults.
\<close>

definition ingest_suggestion :: "json \<Rightarrow> js_error + ingestion" where
  "ingest_suggestion suggested =
     forEach_key suggested DEFAULT_VIDEO_SETTINGS
       \<lparr>newSettings = map_of DEFAULT_VIDEO_SETTINGS, allFieldsValid = True, warned = []\<rparr>"

text \<open>
  The initialiser of the \<open>currentSettings\<close> state. \<open>getItem\<close> is what
  \<open>localStorage.getItem\<close> did (it may throw, or return \<open>null\<close>); \<open>JSON_parse\<close> is the
  platform's parser, which throws a \<open>SyntaxError\<close> on text that is not JSON.
\<close>

definition loadSettings ::
  "(string \<Rightarrow> js_error + json) \<Rightarrow> js_error + string option \<Rightarrow> jsobject" where
  "loadSettings JSON_parse getItem =
     (case getItem of
        Inl err \<Rightarrow> map_of DEFAULT_VIDEO_SETTINGS
      | Inr None \<Rightarrow> map_of DEFAULT_VIDEO_SETTINGS
      | Inr (Some savedSettings) \<Rightarrow>
          if savedSettings = [] then map_of DEFAULT_VIDEO_SETTINGS
          else
            (case JSON_parse savedSettings of
               Inl err \<Rightarrow> map_of DEFAULT_VIDEO_SETTINGS
             | Inr parsed \<Rightarrow> map_of DEFAULT_VIDEO_SETTINGS ++ spread parsed))"

text \<open>
  The documented domain of a settings object: every numeric field is a finite number in
  its range, every boolean field is a boolean.
\<close>

definition in_range :: "jsobject \<Rightarrow> string \<Rightarrow> real \<Rightarrow> real \<Rightarrow> bool" where
  "in_range obj k lo hi =
     (case obj k of Some (JNum (Fin r)) \<Rightarrow> lo \<le> r \<and> r \<le> hi | _ \<Rightarrow> False)"

definition is_boolean :: "jsobject \<Rightarrow> string \<Rightarrow> bool" where
  "is_boolean obj k = (case obj k of Some (JBool b) \<Rightarrow> True | _ \<Rightarrow> False)"

definition valid_settings :: "jsobject \<Rightarrow> bool" where
  "valid_settings obj =
     (in_range obj ''brightness'' 0 200 \<and>
      in_range obj ''contrast'' 0 200 \<and>
      in_range obj ''saturation'' 0 200 \<and>
      in_range obj ''playbackSpeed'' (1 / 2) 2 \<and>
      in_range obj ''volume'' 0 100 \<and>
      is_boolean obj ''flipHorizontal'' \<and>
      is_boolean obj ''enableRotatingLines'' \<and>
      is_boolean obj ''enablePixelNoise'' \<and>
      is_boolean obj ''audioPreservesPitch'')"

text \<open>
  The ingestion rule in the specification's words, for one field: a value that is there
  and has the basic type of the default is accepted, a number clamped to the field's
  range; otherwise the field falls back to its default.
\<close>

definition spec_clamp :: "real \<Rightarrow> real \<Rightarrow> jsnum \<Rightarrow> jsnum" where
  "spec_clamp lo hi n =
     (case n of
        NegInfinity \<Rightarrow> Fin lo
      | Infinity \<Rightarrow> Fin hi
      | Fin r \<Rightarrow> Fin (if r < lo then lo else if hi < r then hi else r))"

definition spec_field :: "json \<Rightarrow> string \<Rightarrow> json \<Rightarrow> json" where
  "spec_field suggested key dflt =
     (case own_property suggested key of
        None \<Rightarrow> dflt
      | Some v \<Rightarrow>
          if typeof v = typeof dflt then
            (case (v, map_of ranges key) of
               (JNum n, Some (lo, hi)) \<Rightarrow> JNum (spec_clamp lo hi n)
             | _ \<Rightarrow> v)
          else dflt)"

text \<open>Whether \<open>suggested.hasOwnProperty\<close> can be called at all.\<close>

fun callable :: "json \<Rightarrow> bool" where
  "callable JUndefined = False"
| "callable JNull = False"
| "callable (JObj kvs) = (map_of kvs ''hasOwnProperty'' = None)"
| "callable _ = True"

section \<open>The processing hook\<close>

record VideoSettings =
  brightness :: real
  contrast :: real
  saturation :: real
  playbackSpeed :: real
  volume :: real
  flipHorizontal :: bool
  enableRotatingLines :: bool
  enablePixelNoise :: bool
  audioPreservesPitch :: bool

definition FPS :: nat where
  "FPS = 30"

definition ROTATION_DURATION_SECONDS :: nat where
  "ROTATION_DURATION_SECONDS = 30"

text \<open>
  The objects the hook's refs point to. \<open>duration\<close> of a media element is \<open>NaN\<close> while it
  is unknown, \<open>Infinity\<close> for an unbounded stream, and a finite number of seconds
  otherwise; \<open>currentTime\<close> is always finite.
\<close>

datatype media_duration = Unknown | Seconds real | Unbounded

record video_element =
  paused :: bool
  ended :: bool
  currentTime :: real
  duration :: media_duration
  src_attached :: bool
  playbackRate :: real
  preservesPitch :: bool
  muted :: bool

record canvas_element =
  width :: nat
  height :: nat

datatype track = VideoTrack | AudioTrack real

datatype recorder_state = Inactive | Recording | Paused

record media_recorder =
  state :: recorder_state
  tracks :: "track list"
  mimeType :: string

datatype audio_state = Suspended | Running | Closed

type_synonym chunk = string

record blob =
  parts :: "chunk list"
  blob_type :: string

text \<open>
  What the hook does to the platform is recorded, not interpreted: the drawing commands
  issued on the 2D context (the filter with its three percentages, the fill style with
  its gray intensity and alpha), and the other calls, in the order they are made.
\<close>

datatype draw_cmd =
    Save
  | Restore
  | Translate real real
  | Scale real real
  | Rotate real
  | Filter real real real
  | DrawImage nat nat
  | FillStyle nat real
  | FillRect real real real real
  | BeginPath
  | MoveTo real real
  | LineTo real real
  | StrokeStyle
  | LineWidth real
  | Stroke

datatype effect =
    CancelAnimationFrame nat
  | RequestAnimationFrame nat
  | RecorderStop
  | RecorderStart
  | NewMediaRecorder "track list" string
  | IsTypeSupported string bool
  | CaptureStream nat
  | VideoPause
  | VideoRemoveSrc
  | VideoLoad
  | VideoPlay
  | AudioClose
  | AudioResume
  | ConsoleWarn string
  | ConsoleError string

text \<open>
  The hook: its four pieces of React state, its refs (a ref holds the object it points
  to, \<open>None\<close> for \<open>null\<close>), and the promise of the current request. The object URL of the
  result is identified with the blob it names. \<open>progress_history\<close>, \<open>painted\<close> and
  \<open>effects\<close> record the calls of \<open>setProgress\<close>, the drawing commands and the other
  platform calls made so far; \<open>frames_requested\<close> numbers the handles that
  \<open>requestAnimationFrame\<close> returns (they are positive).
\<close>

datatype settlement = Resolved blob | Rejected string

record hook =
  isProcessing :: bool
  processedVideoUrl :: "blob option"
  processingError :: "string option"
  progress :: int
  sourceVideoRef :: "video_element option"
  canvasRef :: "canvas_element option"
  mediaRecorderRef :: "media_recorder option"
  recordedChunksRef :: "chunk list"
  audioContextRef :: "audio_state option"
  animationFrameIdRef :: nat
  rotationAngle1Ref :: real
  rotationAngle2Ref :: real
  promise :: "settlement option"
  progress_history :: "int list"
  painted :: "draw_cmd list"
  effects :: "effect list"
  frames_requested :: nat

definition emit :: "effect \<Rightarrow> hook \<Rightarrow> hook" where
  "emit e s = s\<lparr>effects := effects s @ [e]\<rparr>"

definition setProgress :: "int \<Rightarrow> hook \<Rightarrow> hook" where
  "setProgress p s = s\<lparr>progress := p, progress_history := progress_history s @ [p]\<rparr>"

text \<open>Only the first \<open>resolve\<close> or \<open>reject\<close> settles a promise.\<close>

definition settle :: "settlement \<Rightarrow> hook \<Rightarrow> hook" where
  "settle r s = (case promise s of None \<Rightarrow> s\<lparr>promise := Some r\<rparr> | Some _ \<Rightarrow> s)"

definition requestAnimationFrame :: "hook \<Rightarrow> hook" where
  "requestAnimationFrame s =
     (let h = Suc (frames_requested s)
      in emit (RequestAnimationFrame h) (s\<lparr>animationFrameIdRef := h, frames_requested := h\<rparr>))"

definition cancel_frame :: "hook \<Rightarrow> hook" where
  "cancel_frame s =
     (if animationFrameIdRef s \<noteq> 0 then emit (CancelAnimationFrame (animationFrameIdRef s)) s
      else s)"

text \<open>
  \<open>MediaRecorder.stop()\<close> throws an \<open>InvalidStateError\<close> on an inactive recorder.
\<close>

definition recorder_stop :: "media_recorder \<Rightarrow> js_error + media_recorder" where
  "recorder_stop r =
     (if state r = Inactive then Inl (OtherError ''InvalidStateError'')
      else Inr (r\<lparr>state := Inactive\<rparr>))"

subsection \<open>cleanup\<close>

definition cleanup :: "hook \<Rightarrow> js_error + hook" where
  "cleanup s0 =
     (let s1 = (if animationFrameIdRef s0 \<noteq> 0
                then (emit (CancelAnimationFrame (animationFrameIdRef s0)) s0)
                       \<lparr>animationFrameIdRef := 0\<rparr>
                else s0)
      in case (case mediaRecorderRef s1 of
                 Some r \<Rightarrow>
                   if state r = Recording then
                     (case recorder_stop r of
                        Inl err \<Rightarrow> Inl err
                      | Inr r' \<Rightarrow> Inr (emit RecorderStop (s1\<lparr>mediaRecorderRef := Some r'\<rparr>)))
                   else Inr s1
               | None \<Rightarrow> Inr s1) of
           Inl err \<Rightarrow> Inl err
         | Inr s2 \<Rightarrow>
             (let s3 = s2\<lparr>mediaRecorderRef := None, recordedChunksRef := []\<rparr>;
                  s4 = (case sourceVideoRef s3 of
                          Some v \<Rightarrow>
                            (emit VideoLoad (emit VideoRemoveSrc (emit VideoPause s3)))
                              \<lparr>sourceVideoRef := None\<rparr>
                        | None \<Rightarrow> s3);
                  s5 = (case canvasRef s4 of Some c \<Rightarrow> s4\<lparr>canvasRef := None\<rparr> | None \<Rightarrow> s4);
                  s6 = (case audioContextRef s5 of
                          Some a \<Rightarrow>
                            if a \<noteq> Closed then (emit AudioClose s5)\<lparr>audioContextRef := None\<rparr>
                            else s5
                        | None \<Rightarrow> s5)
              in Inr s6))"

text \<open>
  \<open>cleanup\<close> never throws (lemma \<open>cleanup_eq\<close> below), so its callers continue with the
  state it returns. The guarded \<open>stop()\<close> of the frame loop and of the event handlers is
  \<open>stop_if_recording\<close>.
\<close>

definition teardown :: "hook \<Rightarrow> hook" where
  "teardown s = (case cleanup s of Inr s' \<Rightarrow> s' | Inl err \<Rightarrow> s)"

definition stop_if_recording :: "hook \<Rightarrow> hook" where
  "stop_if_recording s =
     (case mediaRecorderRef s of
        Some r \<Rightarrow>
          if state r = Recording
          then emit RecorderStop (s\<lparr>mediaRecorderRef := Some (r\<lparr>state := Inactive\<rparr>)\<rparr>)
          else s
      | None \<Rightarrow> s)"

text \<open>
  The fatal paths share one shape: \<open>setProcessingError(err); setIsProcessing(false);
  cleanup(); reject(new Error(err))\<close>.
\<close>

definition abort :: "string \<Rightarrow> hook \<Rightarrow> hook" where
  "abort err s =
     settle (Rejected err) (teardown (s\<lparr>processingError := Some err, isProcessing := False\<rparr>))"

subsection \<open>The platform, as one session meets it\<close>

text \<open>
  Everything in a session that the platform decides: whether \<open>getContext('2d')\<close> returns
  a context, whether the \<open>AudioContext\<close> constructor throws and the state of a new
  context, the metadata of the source, the three audio-presence signals (\<open>None\<close> where
  the property is \<open>undefined\<close>), whether building the audio nodes throws (the message of
  the exception) and whether the destination stream has a track, the answer of
  \<open>MediaRecorder.isTypeSupported\<close>, whether the \<open>MediaRecorder\<close> constructor throws, and
  whether \<open>play()\<close> rejects.
\<close>

record env =
  getContext_2d :: bool
  AudioContext_throws :: bool
  initial_audio_state :: audio_state
  videoWidth :: nat
  videoHeight :: nat
  source_duration :: media_duration
  audioTracks_length :: "nat option"
  mozHasAudio :: bool
  webkitAudioDecodedByteCount :: "nat option"
  audio_graph_throws :: "string option"
  destination_has_track :: bool
  isTypeSupported :: "string \<Rightarrow> bool"
  MediaRecorder_throws :: "string option"
  play_rejects :: "string option"

subsection \<open>processVideo, up to the assignment of the source\<close>

text \<open>
  The synchronous part of \<open>processVideo\<close>: the state is reset, the previous session is
  torn down, the angles are reset, the elements and the audio context are created. A
  new canvas is 300 by 150 until the metadata handler sizes it.
\<close>

definition new_video :: video_element where
  "new_video = \<lparr>paused = True, ended = False, currentTime = 0, duration = Unknown,
     src_attached = False, playbackRate = 1, preservesPitch = True, muted = False\<rparr>"

definition new_canvas :: canvas_element where
  "new_canvas = \<lparr>width = 300, height = 150\<rparr>"

definition processVideo :: "env \<Rightarrow> hook \<Rightarrow> hook" where
  "processVideo env s0 =
     (let s1 = setProgress 0
                 (s0\<lparr>isProcessing := True, processedVideoUrl := None, processingError := None\<rparr>);
          s2 = teardown s1;
          s3 = s2\<lparr>rotationAngle1Ref := 0, rotationAngle2Ref := pi / 2, promise := None\<rparr>;
          s4 = s3\<lparr>sourceVideoRef := Some new_video, canvasRef := Some new_canvas\<rparr>
      in if \<not> getContext_2d env then abort ''Could not get canvas context.'' s4
         else if AudioContext_throws env then abort ''AudioContext not supported.'' s4
         else s4\<lparr>audioContextRef := Some (initial_audio_state env),
                 sourceVideoRef := Some (new_video\<lparr>src_attached := True\<rparr>)\<rparr>)"

subsection \<open>The loadedmetadata handler\<close>

text \<open>
  \<open>video.onloadedmetadata\<close>, run on the objects of the session that the refs still hold
  (the element has its duration by then). An event that arrives after the session was
  torn down is not modelled: the state is returned as it is.
\<close>

definition mimeType_wanted :: string where
  "mimeType_wanted = ''video/webm;codecs=vp8,opus''"

definition unsupported_message :: string where
  "unsupported_message =
     ''MIME type '' @ mimeType_wanted @
     '' not supported for MediaRecorder. Your browser may not support WEBM (VP8/Opus) recording.''"

definition audio_present :: "env \<Rightarrow> bool" where
  "audio_present env =
     (let hasAudioTracks = (case audioTracks_length env of Some n \<Rightarrow> n > 0 | None \<Rightarrow> False);
          hasMozAudio = mozHasAudio env;
          hasWebkitAudio =
            (case webkitAudioDecodedByteCount env of Some n \<Rightarrow> n > 0 | None \<Rightarrow> False)
      in hasAudioTracks \<or> hasMozAudio \<or> hasWebkitAudio)"

definition onloadedmetadata :: "env \<Rightarrow> VideoSettings \<Rightarrow> hook \<Rightarrow> hook" where
  "onloadedmetadata env settings s =
     (case (sourceVideoRef s, canvasRef s, audioContextRef s) of
        (Some video0, Some canvas0, Some audioContext) \<Rightarrow>
          (let canvas = canvas0\<lparr>width := videoWidth env, height := videoHeight env\<rparr>;
               video = video0\<lparr>duration := source_duration env,
                          preservesPitch := audioPreservesPitch settings,
                          playbackRate := playbackSpeed settings,
                          muted := True\<rparr>;
               s1 = s\<lparr>canvasRef := Some canvas, sourceVideoRef := Some video\<rparr>;
               (audioTrack, s2) =
                 (if audio_present env then
                    (case audio_graph_throws env of
                       Some audioErr \<Rightarrow>
                         (None, emit (ConsoleWarn (''Could not process audio track: '' @ audioErr)) s1)
                     | None \<Rightarrow>
                         (if destination_has_track env
                          then Some (AudioTrack (volume settings / 100)) else None, s1))
                  else (None, s1));
               s3 = emit (CaptureStream FPS) s2;
               combined = VideoTrack # (case audioTrack of Some t \<Rightarrow> [t] | None \<Rightarrow> []);
               supported = isTypeSupported env mimeType_wanted;
               s4 = emit (IsTypeSupported mimeType_wanted supported) s3
           in if \<not> supported then
                abort unsupported_message (emit (ConsoleError unsupported_message) s4)
              else
                (case MediaRecorder_throws env of
                   Some m \<Rightarrow>
                     (let err = ''Failed to create MediaRecorder: '' @ m @ ''.''
                      in abort err (emit (ConsoleError err) s4))
                 | None \<Rightarrow>
                     (let s5 = (emit (NewMediaRecorder combined mimeType_wanted) s4)
                                 \<lparr>mediaRecorderRef :=
                                    Some \<lparr>state = Inactive, tracks = combined,
                                          mimeType = mimeType_wanted\<rparr>,
                                  recordedChunksRef := []\<rparr>;
                          s6 = (emit RecorderStart s5)
                                 \<lparr>mediaRecorderRef :=
                                    Some \<lparr>state = Recording, tracks = combined,
                                          mimeType = mimeType_wanted\<rparr>\<rparr>;
                          s7 = emit VideoPlay s6
                      in case play_rejects env of
                           Some m \<Rightarrow>
                             (let errorMsg = ''Could not start video playback: '' @ m;
                                  s8 = (emit (ConsoleError errorMsg) s7)
                                         \<lparr>processingError := Some errorMsg, isProcessing := False\<rparr>
                              in settle (Rejected m) (teardown (stop_if_recording s8)))
                         | None \<Rightarrow> s7\<lparr>sourceVideoRef := Some (video\<lparr>paused := False\<rparr>)\<rparr>)))
      | _ \<Rightarrow> s)"

subsection \<open>The frame loop\<close>

definition video_onplay :: "hook \<Rightarrow> hook" where
  "video_onplay s =
     requestAnimationFrame
       (case audioContextRef s of
          Some Suspended \<Rightarrow> emit AudioResume (s\<lparr>audioContextRef := Some Running\<rparr>)
        | _ \<Rightarrow> s)"

text \<open>
  JavaScript's \<open>%\<close> on numbers keeps the sign of the dividend: the quotient is truncated
  towards zero. \<open>Math.round\<close> rounds a half upwards. Both are taken over the reals: the
  rounding of double arithmetic is not modelled.
\<close>

definition trunc :: "real \<Rightarrow> int" where
  "trunc x = (if 0 \<le> x then \<lfloor>x\<rfloor> else \<lceil>x\<rceil>)"

definition js_rem :: "real \<Rightarrow> real \<Rightarrow> real" where
  "js_rem a b = a - b * of_int (trunc (a / b))"

definition Math_round :: "real \<Rightarrow> int" where
  "Math_round x = \<lfloor>x + 1 / 2\<rfloor>"

definition rotationIncrementPerFrame :: real where
  "rotationIncrementPerFrame = (2 * pi) / real (ROTATION_DURATION_SECONDS * FPS)"

record noise_mark =
  mark_x :: real
  mark_y :: real
  intensity :: nat
  alpha :: real

text \<open>
  The pixel-noise loop. \<open>random\<close> gives the results of the frame's calls of
  \<open>Math.random()\<close> in call order; each lies in \<open>[0, 1)\<close>.
\<close>

function noise_loop :: "nat \<Rightarrow> nat \<Rightarrow> canvas_element \<Rightarrow> (nat \<Rightarrow> real) \<Rightarrow> noise_mark list" where
  "noise_loop i numNoisePixels currentCanvas random =
     (if i < numNoisePixels then
        \<lparr>mark_x = random (4 * i) * real (width currentCanvas),
         mark_y = random (4 * i + 1) * real (height currentCanvas),
         intensity = (if random (4 * i + 2) > 0.5 then 220 else 30),
         alpha = random (4 * i + 3) * 0.05 + 0.02\<rparr>
        # noise_loop (Suc i) numNoisePixels currentCanvas random
      else [])"
  by pat_completeness auto
termination
  by (relation "measure (\<lambda>(i, n, c, r). n - i)") auto

declare noise_loop.simps [simp del]

definition pixel_noise :: "canvas_element \<Rightarrow> (nat \<Rightarrow> real) \<Rightarrow> noise_mark list" where
  "pixel_noise currentCanvas random =
     (let numNoisePixels =
            nat \<lfloor>real (width currentCanvas * height currentCanvas) * 0.001\<rfloor>
      in noise_loop 0 numNoisePixels currentCanvas random)"

definition mark_cmds :: "noise_mark \<Rightarrow> draw_cmd list" where
  "mark_cmds m = [FillStyle (intensity m) (alpha m), FillRect (mark_x m) (mark_y m) 1 1]"

definition base_cmds :: "VideoSettings \<Rightarrow> canvas_element \<Rightarrow> draw_cmd list" where
  "base_cmds settings cv =
     [Save] @
     (if flipHorizontal settings then [Translate (real (width cv)) 0, Scale (- 1) 1] else []) @
     [Filter (brightness settings) (contrast settings) (saturation settings),
      DrawImage (width cv) (height cv),
      Restore]"

definition line_cmds :: "canvas_element \<Rightarrow> real \<Rightarrow> real \<Rightarrow> draw_cmd list" where
  "line_cmds cv angle1 angle2 =
     (let centerX = real (width cv) / 2;
          centerY = real (height cv) / 2;
          lineLength = sqrt ((real (width cv))\<^sup>2 + (real (height cv))\<^sup>2);
          lineWidth = 1.5
      in [Save, Translate centerX centerY, Rotate angle1, BeginPath,
          MoveTo (- lineLength / 2) 0, LineTo (lineLength / 2) 0,
          StrokeStyle, LineWidth lineWidth, Stroke, Restore,
          Save, Translate centerX centerY, Rotate angle2, BeginPath,
          MoveTo 0 (- lineLength / 2), LineTo 0 (lineLength / 2),
          StrokeStyle, LineWidth lineWidth, Stroke, Restore])"

definition paint :: "draw_cmd list \<Rightarrow> hook \<Rightarrow> hook" where
  "paint cmds s = s\<lparr>painted := painted s @ cmds\<rparr>"

definition frame_progress :: "video_element \<Rightarrow> int option" where
  "frame_progress v =
     (case duration v of
        Seconds d \<Rightarrow>
          if d > 0 then Some (min 100 (Math_round (currentTime v / d * 100))) else None
      | Unbounded \<Rightarrow> Some (min 100 (Math_round 0))
      | Unknown \<Rightarrow> None)"

definition halt_loop :: "hook \<Rightarrow> hook" where
  "halt_loop s = (cancel_frame (stop_if_recording s))\<lparr>animationFrameIdRef := 0\<rparr>"

definition drawFrame :: "VideoSettings \<Rightarrow> (nat \<Rightarrow> real) \<Rightarrow> hook \<Rightarrow> hook" where
  "drawFrame settings random s =
     (case (sourceVideoRef s, canvasRef s) of
        (Some video, Some cv) \<Rightarrow>
          if paused video \<or> ended video then halt_loop s
          else
            (let s1 = paint (base_cmds settings cv) s;
                 s2 = (if enablePixelNoise settings
                       then paint (concat (map mark_cmds (pixel_noise cv random))) s1
                       else s1);
                 s3 = (if enableRotatingLines settings then
                         (let angle1 = js_rem (rotationAngle1Ref s2 + rotationIncrementPerFrame)
                                         (2 * pi);
                              angle2 = js_rem
                                         (js_rem (rotationAngle2Ref s2 - rotationIncrementPerFrame)
                                            (2 * pi) + 2 * pi)
                                         (2 * pi)
                          in paint (line_cmds cv angle1 angle2)
                               (s2\<lparr>rotationAngle1Ref := angle1, rotationAngle2Ref := angle2\<rparr>))
                       else s2);
                 s4 = (case frame_progress video of
                         Some p \<Rightarrow> setProgress p s3
                       | None \<Rightarrow> s3)
             in requestAnimationFrame s4)
      | _ \<Rightarrow> halt_loop s)"

subsection \<open>Recorder and source events\<close>

definition ondataavailable :: "chunk \<Rightarrow> hook \<Rightarrow> hook" where
  "ondataavailable data s =
     (if length data > 0 then s\<lparr>recordedChunksRef := recordedChunksRef s @ [data]\<rparr> else s)"

definition recorder_onstop :: "hook \<Rightarrow> hook" where
  "recorder_onstop s =
     (let url = \<lparr>parts = recordedChunksRef s, blob_type = mimeType_wanted\<rparr>;
          s1 = s\<lparr>processedVideoUrl := Some url, isProcessing := False\<rparr>;
          s2 = setProgress 100 s1;
          s3 = settle (Resolved url) s2;
          s4 = s3\<lparr>mediaRecorderRef := None\<rparr>
      in (cancel_frame s4)\<lparr>animationFrameIdRef := 0\<rparr>)"

definition video_onended :: "hook \<Rightarrow> hook" where
  "video_onended s = halt_loop s"

text \<open>The source advancing: the platform moves \<open>currentTime\<close>, and finally sets \<open>ended\<close>.\<close>

definition playback_at :: "real \<Rightarrow> hook \<Rightarrow> hook" where
  "playback_at t s =
     (case sourceVideoRef s of
        Some v \<Rightarrow> s\<lparr>sourceVideoRef := Some (v\<lparr>currentTime := t\<rparr>)\<rparr>
      | None \<Rightarrow> s)"

definition playback_ends :: "hook \<Rightarrow> hook" where
  "playback_ends s =
     (case sourceVideoRef s of
        Some v \<Rightarrow> s\<lparr>sourceVideoRef := Some (v\<lparr>ended := True\<rparr>)\<rparr>
      | None \<Rightarrow> s)"

text \<open>
  A run of frames: before each call of \<open>drawFrame\<close> the source has reached a playback
  position, and the call makes its own random draws.
\<close>

fun render_frames :: "VideoSettings \<Rightarrow> (real \<times> (nat \<Rightarrow> real)) list \<Rightarrow> hook \<Rightarrow> hook" where
  "render_frames settings [] s = s"
| "render_frames settings ((t, random) # rest) s =
     render_frames settings rest (drawFrame settings random (playback_at t s))"

text \<open>
  A whole session that nothing interrupts: the request, the metadata event and the play
  event (\<open>started\<close>), then the frames, the end of the source, and the recorder's stop
  event.
\<close>

definition started :: "env \<Rightarrow> VideoSettings \<Rightarrow> hook \<Rightarrow> hook" where
  "started env settings s = video_onplay (onloadedmetadata env settings (processVideo env s))"

definition session :: "env \<Rightarrow> VideoSettings \<Rightarrow> (real \<times> (nat \<Rightarrow> real)) list \<Rightarrow> hook \<Rightarrow> hook" where
  "session env settings frames s =
     recorder_onstop
       (video_onended (playback_ends (render_frames settings frames (started env settings s))))"

text \<open>The hook before any request: the initial values of its state and refs.\<close>

definition idle :: hook where
  "idle = \<lparr>isProcessing = False, processedVideoUrl = None, processingError = None, progress = 0,
     sourceVideoRef = None, canvasRef = None, mediaRecorderRef = None, recordedChunksRef = [],
     audioContextRef = None, animationFrameIdRef = 0, rotationAngle1Ref = 0,
     rotationAngle2Ref = pi / 2, promise = None, progress_history = [], painted = [],
     effects = [], frames_requested = 0\<rparr>"

text \<open>A platform on which no step of the setup fails.\<close>

definition sound_platform :: "env \<Rightarrow> bool" where
  "sound_platform env =
     (getContext_2d env \<and> \<not> AudioContext_throws env \<and> isTypeSupported env mimeType_wanted \<and>
      MediaRecorder_throws env = None \<and> play_rejects env = None)"

text \<open>
  What \<open>cleanup\<close> is to achieve: every ref is cleared (an audio context that was closed
  already may stay referenced), and these calls are made on the objects of the session.
\<close>

definition released :: "hook \<Rightarrow> bool" where
  "released s =
     (animationFrameIdRef s = 0 \<and> mediaRecorderRef s = None \<and> recordedChunksRef s = [] \<and>
      sourceVideoRef s = None \<and> canvasRef s = None \<and>
      (audioContextRef s = None \<or> audioContextRef s = Some Closed))"

definition cleanup_calls :: "hook \<Rightarrow> effect list" where
  "cleanup_calls s =
     (if animationFrameIdRef s \<noteq> 0 then [CancelAnimationFrame (animationFrameIdRef s)] else []) @
     (case mediaRecorderRef s of
        Some r \<Rightarrow> if state r = Recording then [RecorderStop] else []
      | None \<Rightarrow> []) @
     (case sourceVideoRef s of
        Some v \<Rightarrow> [VideoPause, VideoRemoveSrc, VideoLoad]
      | None \<Rightarrow> []) @
     (case audioContextRef s of
        Some a \<Rightarrow> if a \<noteq> Closed then [AudioClose] else []
      | None \<Rightarrow> [])"

definition after_cleanup :: "hook \<Rightarrow> hook" where
  "after_cleanup s =
     s\<lparr>animationFrameIdRef := 0, mediaRecorderRef := None, recordedChunksRef := [],
       sourceVideoRef := None, canvasRef := None,
       audioContextRef := (if audioContextRef s = Some Closed then Some Closed else None),
       effects := effects s @ cleanup_calls s\<rparr>"

text \<open>
  Concrete inputs for closed statements: a random source that always draws the same
  number, a platform on which every step succeeds, and two settings values.
\<close>

definition steady :: "real \<Rightarrow> nat \<Rightarrow> real" where
  "steady r k = r"

definition capable :: env where
  "capable = \<lparr>getContext_2d = True, AudioContext_throws = False, initial_audio_state = Suspended,
     videoWidth = 40, videoHeight = 25, source_duration = Seconds 10, audioTracks_length = None,
     mozHasAudio = False, webkitAudioDecodedByteCount = Some 0, audio_graph_throws = None,
     destination_has_track = True, isTypeSupported = (\<lambda>m. m = mimeType_wanted),
     MediaRecorder_throws = None, play_rejects = None\<rparr>"

definition neutral :: VideoSettings where
  "neutral = \<lparr>brightness = 100, contrast = 100, saturation = 100, playbackSpeed = 1,
     volume = 100, flipHorizontal = False, enableRotatingLines = False, enablePixelNoise = False,
     audioPreservesPitch = True\<rparr>"


section \<open>The application component\<close>

text \<open>
  \<open>String.prototype.trim\<close> and the regular expression's \<open>\s\<close> remove the same characters.
  The model has 8-bit characters, so it knows the ASCII ones: space, tab, line feed,
  vertical tab, form feed and carriage return.
\<close>

definition is_space :: "char \<Rightarrow> bool" where
  "is_space c =
     (c = CHR '' '' \<or> c = CHR 0x09 \<or> c = CHR 0x0A \<or> c = CHR 0x0B \<or> c = CHR 0x0C \<or>
      c = CHR 0x0D)"

definition trimStart :: "string \<Rightarrow> string" where
  "trimStart s = dropWhile is_space s"

definition trimEnd :: "string \<Rightarrow> string" where
  "trimEnd s = rev (dropWhile is_space (rev s))"

definition js_trim :: "string \<Rightarrow> string" where
  "js_trim s = trimEnd (trimStart s)"

text \<open>
  The first group of \<^verbatim>\<open>/^```(?:json)?\s*\n?(.*?)\n?\s*```$/s\<close> on a string, when the
  expression matches. It matches when the string opens and closes with a fence of three
  backquotes that do not overlap. The optional \<open>json\<close> and the greedy \<open>\s*\<close> take what
  they can at the front; the group is lazy, so the white space before the closing fence
  stays outside it.
\<close>

definition fence :: string where
  "fence = ''```''"

definition fence_group :: "string \<Rightarrow> string option" where
  "fence_group s =
     (if 6 \<le> length s \<and> take 3 s = fence \<and> drop (length s - 3) s = fence then
        (let inner = take (length s - 6) (drop 3 s);
             rest = (if take 4 inner = ''json'' then drop 4 inner else inner)
         in Some (trimEnd (trimStart rest)))
      else None)"

definition extract_json :: "string \<Rightarrow> string" where
  "extract_json text =
     (let jsonStr = js_trim text
      in case fence_group jsonStr of
           Some g \<Rightarrow> if g \<noteq> [] then js_trim g else jsonStr
         | None \<Rightarrow> jsonStr)"

text \<open>What \<open>ai.models.generateContent\<close> did: it failed, or it answered with a text.\<close>

datatype ai_reply = Failed js_error | Replied string

record app =
  currentSettings :: jsobject
  geminiPrompt :: string
  isSuggestingSettings :: bool
  geminiError :: "string option"
  videoFile :: "string option"
  processor :: hook

definition failure_message :: "js_error \<Rightarrow> string" where
  "failure_message e =
     ''Failed to get AI suggestions: '' @
     (if message e = [] then ''Unknown error'' else message e) @
     ''. Please try again or adjust settings manually.''"

definition partially_applied :: string where
  "partially_applied =
     ''AI suggestion was partially applied. Some fields were missing or invalid and set to defaults.''"

text \<open>
  \<open>handleSuggestSettings\<close>. \<open>aiAvailable\<close> says whether the client was created,
  \<open>JSON_parse\<close> is the platform's parser and \<open>reply\<close> is what the request did. The result
  is the component's state after the handler's \<open>finally\<close> block.
\<close>

definition handleSuggestSettings ::
  "bool \<Rightarrow> (string \<Rightarrow> js_error + json) \<Rightarrow> ai_reply \<Rightarrow> app \<Rightarrow> app" where
  "handleSuggestSettings aiAvailable JSON_parse reply a =
     (if \<not> aiAvailable then
        a\<lparr>geminiError :=
            Some ''AI features are not available. API key might be missing or invalid.''\<rparr>
      else if js_trim (geminiPrompt a) = [] then
        a\<lparr>geminiError := Some ''Please enter a description for AI suggestions.''\<rparr>
      else
        (let a1 = a\<lparr>isSuggestingSettings := True, geminiError := None\<rparr>;
             outcome =
               (case reply of
                  Failed e \<Rightarrow> Inl e
                | Replied text \<Rightarrow>
                    (case JSON_parse (extract_json text) of
                       Inl e \<Rightarrow> Inl e
                     | Inr suggested \<Rightarrow> ingest_suggestion suggested));
             a2 = (case outcome of
                     Inl e \<Rightarrow> a1\<lparr>geminiError := Some (failure_message e)\<rparr>
                   | Inr st \<Rightarrow>
                       (let a' = a1\<lparr>currentSettings := newSettings st\<rparr>
                        in if \<not> allFieldsValid st
                           then a'\<lparr>geminiError := Some partially_applied\<rparr>
                           else a'))
         in a2\<lparr>isSuggestingSettings := False\<rparr>))"

text \<open>
  A parser that knows one text: it stands for \<open>JSON.parse\<close> where a statement needs a
  concrete one.
\<close>

definition parses_as :: "string \<Rightarrow> json \<Rightarrow> string \<Rightarrow> js_error + json" where
  "parses_as known v s =
     (if s = known then Inr v else Inl (SyntaxError ''Unexpected token''))"

text \<open>
  Concrete inputs for closed statements: a component whose user has raised the
  brightness to 150, and the suggestion of the specification's scenario.
\<close>

definition adjusted :: app where
  "adjusted =
     \<lparr>currentSettings = (map_of DEFAULT_VIDEO_SETTINGS)(''brightness'' \<mapsto> JNum (Fin 150)),
      geminiPrompt = ''make it brighter'',
      isSuggestingSettings = False,
      geminiError = None,
      videoFile = Some ''clip.mp4'',
      processor = idle\<rparr>"

definition spec_scenario :: json where
  "spec_scenario =
     JObj [(''brightness'', JNum (Fin 500)), (''contrast'', JStr ''high''),
           (''saturation'', JNum (Fin 120)), (''playbackSpeed'', JNum (Fin 1)),
           (''volume'', JNum (Fin 80)), (''flipHorizontal'', JBool True),
           (''enableRotatingLines'', JBool False), (''enablePixelNoise'', JBool False),
           (''audioPreservesPitch'', JBool True)]"

section \<open>The download name\<close>

text \<open>
  The download anchor of \<open>App\<close> carries the attribute
  \<^verbatim>\<open>download={`modified_${videoFile?.name.split('.')[0] || 'video'}.webm`}\<close>.
  \<open>split_first\<close> is \<open>name.split('.')[0]\<close>: the text before the first separator (the whole
  string when there is none). The operand of \<open>||\<close> is falsy when there is no file or the
  first segment is the empty string.
\<close>

definition split_first :: "char \<Rightarrow> string \<Rightarrow> string" where
  "split_first sep s = takeWhile (\<lambda>c. c \<noteq> sep) s"

definition download_name :: "string option \<Rightarrow> string" where
  "download_name fileName =
     ''modified_'' @
     (let seg = (case fileName of None \<Rightarrow> [] | Some n \<Rightarrow> split_first CHR ''.'' n)
      in if seg = [] then ''video'' else seg) @
     ''.webm''"

text \<open>
  The specification's reading of the basename, written from its words (``the name with
  its final extension removed''): everything before the last dot, the whole name when it
  has no dot. It is compared with what \<open>download_name\<close> computes.
\<close>

definition spec_basename :: "string \<Rightarrow> string" where
  "spec_basename n =
     (if CHR ''.'' \<in> set n then rev (tl (dropWhile (\<lambda>c. c \<noteq> CHR ''.'') (rev n))) else n)"

definition spec_download_name :: "string \<Rightarrow> string" where
  "spec_download_name n = ''modified_'' @ spec_basename n @ ''.webm''"

section \<open>Notions the statements use\<close>

text \<open>
  The source element and the recorded tracks of a session whose setup succeeded.
\<close>

definition session_video :: "env \<Rightarrow> VideoSettings \<Rightarrow> video_element" where
  "session_video env settings =
     \<lparr>paused = False, ended = False, currentTime = 0, duration = source_duration env,
      src_attached = True, playbackRate = playbackSpeed settings,
      preservesPitch = audioPreservesPitch settings, muted = True\<rparr>"

definition session_tracks :: "env \<Rightarrow> VideoSettings \<Rightarrow> track list" where
  "session_tracks env settings =
     VideoTrack #
     (if audio_present env \<and> audio_graph_throws env = None \<and> destination_has_track env
      then [AudioTrack (volume settings / 100)] else [])"

text \<open>
  The frame loop's guard passes: the source is there, neither paused nor ended, and the
  drawing surface is there.
\<close>

definition playing :: "canvas_element \<Rightarrow> media_duration \<Rightarrow> hook \<Rightarrow> bool" where
  "playing cv d s =
     (\<exists>v. sourceVideoRef s = Some v \<and> \<not> paused v \<and> \<not> ended v \<and> duration v = d \<and>
          canvasRef s = Some cv)"

text \<open>
  The update of the two phase angles in one frame, and the drawing commands of a frame.
\<close>

definition next_angle1 :: "real \<Rightarrow> real" where
  "next_angle1 a = js_rem (a + rotationIncrementPerFrame) (2 * pi)"

definition next_angle2 :: "real \<Rightarrow> real" where
  "next_angle2 a = js_rem (js_rem (a - rotationIncrementPerFrame) (2 * pi) + 2 * pi) (2 * pi)"

definition frame_cmds :: "VideoSettings \<Rightarrow> canvas_element \<Rightarrow> (nat \<Rightarrow> real) \<Rightarrow> real \<Rightarrow> real \<Rightarrow> draw_cmd list" where
  "frame_cmds settings cv random angle1 angle2 =
     base_cmds settings cv @
     (if enablePixelNoise settings then concat (map mark_cmds (pixel_noise cv random)) else []) @
     (if enableRotatingLines settings then line_cmds cv angle1 angle2 else [])"






definition audio_warning :: "env \<Rightarrow> effect list" where
  "audio_warning env =
     (case (audio_present env, audio_graph_throws env) of
        (True, Some audioErr) \<Rightarrow> [ConsoleWarn (''Could not process audio track: '' @ audioErr)]
      | _ \<Rightarrow> [])"


definition failing_audio :: env where
  "failing_audio =
     capable\<lparr>audioTracks_length := Some 1, audio_graph_throws := Some ''NotSupportedError''\<rparr>"

definition no_audio_context :: env where
  "no_audio_context = capable\<lparr>AudioContext_throws := True\<rparr>"

text \<open>
  The audio context that the hook references, when it references one, has not been
  closed.
\<close>

definition context_open :: "hook \<Rightarrow> bool" where
  "context_open s = (audioContextRef s \<noteq> Some Closed)"

section \<open>Theorems: ingestion of settings\<close>

lemma clamp_is_spec_clamp:
  "lo \<le> hi \<Longrightarrow> Math_max (Fin lo) (Math_min (Fin hi) n) = spec_clamp lo hi n"
  by (cases n) (auto simp: Math_max_def Math_min_def spec_clamp_def)

lemma ranges_ordered: "map_of ranges key = Some (lo, hi) \<Longrightarrow> lo \<le> hi"
  by (auto simp: ranges_def split: if_splits)

lemma hasOwnProperty_owned:
  "hasOwnProperty suggested key = Inr has \<Longrightarrow> has = (own_property suggested key \<noteq> None)"
  by (cases suggested) (auto split: option.splits)


lemma hasOwnProperty_throws:
  "\<not> callable suggested \<Longrightarrow> \<exists>err. hasOwnProperty suggested key = Inl err"
  by (cases suggested) auto

lemma validate_key_field:
  assumes "validate_key suggested (key, dflt) st = Inr st'"
    and "newSettings st key = Some dflt"
  shows "newSettings st' = (newSettings st)(key \<mapsto> spec_field suggested key dflt)"
proof -
  from assms(1) obtain has where has: "hasOwnProperty suggested key = Inr has"
    by (cases "hasOwnProperty suggested key") auto
  then have owned: "has = (own_property suggested key \<noteq> None)"
    by (rule hasOwnProperty_owned)
  show ?thesis
  proof (cases "own_property suggested key")
    case None
    with has owned assms show ?thesis
      by (auto simp: spec_field_def)
  next
    case (Some v)
    with has owned assms show ?thesis
      by (auto simp: spec_field_def get_property_def Let_def clamp_is_spec_clamp ranges_ordered
          split: if_splits json.splits option.splits)
  qed
qed

lemma forEach_key_fields:
  assumes "forEach_key suggested es st = Inr st'"
    and "distinct (map fst es)"
    and "\<forall>(key, dflt) \<in> set es. newSettings st key = Some dflt"
  shows "(\<forall>(key, dflt) \<in> set es. newSettings st' key = Some (spec_field suggested key dflt)) \<and>
         (\<forall>k. k \<notin> fst ` set es \<longrightarrow> newSettings st' k = newSettings st k)"
  using assms
proof (induction es arbitrary: st)
  case Nil
  then show ?case by simp
next
  case (Cons e es)
  obtain key dflt where e: "e = (key, dflt)"
    by (cases e)
  from Cons.prems(1) obtain st1 where
    step: "validate_key suggested (key, dflt) st = Inr st1" and
    rest: "forEach_key suggested es st1 = Inr st'"
    by (auto simp: e split: sum.splits)
  from Cons.prems(3) have here: "newSettings st key = Some dflt"
    by (simp add: e)
  have st1: "newSettings st1 = (newSettings st)(key \<mapsto> spec_field suggested key dflt)"
    using step here by (rule validate_key_field)
  from Cons.prems(2) have fresh: "key \<notin> fst ` set es" and dist: "distinct (map fst es)"
    by (auto simp: e)
  have "\<forall>(k, d) \<in> set es. newSettings st1 k = Some d"
    using Cons.prems(3) fresh by (auto simp: st1 e rev_image_eqI)
  from Cons.IH [OF rest dist this]
  have ih1: "\<forall>(k, d) \<in> set es. newSettings st' k = Some (spec_field suggested k d)"
    and ih2: "\<forall>k. k \<notin> fst ` set es \<longrightarrow> newSettings st' k = newSettings st1 k"
    by auto
  from ih2 fresh have "newSettings st' key = Some (spec_field suggested key dflt)"
    by (simp add: st1)
  moreover from ih2 have "\<forall>k. k \<notin> fst ` set (e # es) \<longrightarrow> newSettings st' k = newSettings st k"
    by (simp add: st1 e)
  ultimately show ?case
    using ih1 by (simp add: e)
qed


lemma ingest_suggestion_fields:
  assumes "ingest_suggestion suggested = Inr st"
  shows "\<forall>(key, dflt) \<in> set DEFAULT_VIDEO_SETTINGS.
           newSettings st key = Some (spec_field suggested key dflt)"
proof -
  have "distinct (map fst DEFAULT_VIDEO_SETTINGS)"
    by (simp add: DEFAULT_VIDEO_SETTINGS_def)
  moreover have "\<forall>(key, dflt) \<in> set DEFAULT_VIDEO_SETTINGS.
      newSettings \<lparr>newSettings = map_of DEFAULT_VIDEO_SETTINGS, allFieldsValid = True, warned = []\<rparr> key
        = Some dflt"
    by (simp add: DEFAULT_VIDEO_SETTINGS_def)
  ultimately show ?thesis
    using forEach_key_fields assms unfolding ingest_suggestion_def by blast
qed


lemma ingest_suggestion_throws:
  "\<not> callable suggested \<Longrightarrow> \<exists>err. ingest_suggestion suggested = Inl err"
  using hasOwnProperty_throws [of suggested "''brightness''"]
  by (auto simp: ingest_suggestion_def DEFAULT_VIDEO_SETTINGS_def)

lemma spec_field_number:
  assumes "map_of ranges key = Some (lo, hi)" "lo \<le> d" "d \<le> hi"
  shows "\<exists>r. spec_field suggested key (JNum (Fin d)) = JNum (Fin r) \<and> lo \<le> r \<and> r \<le> hi"
  using assms
  by (auto simp: spec_field_def spec_clamp_def split: option.splits json.splits jsnum.splits)

lemma spec_field_boolean: "\<exists>b. spec_field suggested key (JBool d) = JBool b"
  by (auto simp: spec_field_def split: option.splits json.splits)

lemma ingest_suggestion_valid:
  assumes "ingest_suggestion suggested = Inr st"
  shows "valid_settings (newSettings st)"
proof -
  note f = ingest_suggestion_fields [OF assms]
  have num: "in_range (newSettings st) key lo hi"
    if "(key, JNum (Fin d)) \<in> set DEFAULT_VIDEO_SETTINGS" "map_of ranges key = Some (lo, hi)"
      "lo \<le> d" "d \<le> hi" for key lo hi d
  proof -
    from f that(1) have "newSettings st key = Some (spec_field suggested key (JNum (Fin d)))"
      by blast
    with spec_field_number [OF that(2-4), of suggested] show ?thesis
      by (auto simp: in_range_def)
  qed
  have bool: "is_boolean (newSettings st) key"
    if "(key, JBool d) \<in> set DEFAULT_VIDEO_SETTINGS" for key d
  proof -
    from f that have "newSettings st key = Some (spec_field suggested key (JBool d))"
      by blast
    with spec_field_boolean [of suggested key d] show ?thesis
      by (auto simp: is_boolean_def)
  qed
  have "in_range (newSettings st) ''brightness'' 0 200"
    by (rule num [where d = 100]) (simp_all add: DEFAULT_VIDEO_SETTINGS_def ranges_def)
  moreover have "in_range (newSettings st) ''contrast'' 0 200"
    by (rule num [where d = 100]) (simp_all add: DEFAULT_VIDEO_SETTINGS_def ranges_def)
  moreover have "in_range (newSettings st) ''saturation'' 0 200"
    by (rule num [where d = 100]) (simp_all add: DEFAULT_VIDEO_SETTINGS_def ranges_def)
  moreover have "in_range (newSettings st) ''playbackSpeed'' (1 / 2) 2"
    by (rule num [where d = 1]) (simp_all add: DEFAULT_VIDEO_SETTINGS_def ranges_def)
  moreover have "in_range (newSettings st) ''volume'' 0 100"
    by (rule num [where d = 100]) (simp_all add: DEFAULT_VIDEO_SETTINGS_def ranges_def)
  moreover have "is_boolean (newSettings st) ''flipHorizontal''"
    by (rule bool [where d = False]) (simp add: DEFAULT_VIDEO_SETTINGS_def)
  moreover have "is_boolean (newSettings st) ''enableRotatingLines''"
    by (rule bool [where d = False]) (simp add: DEFAULT_VIDEO_SETTINGS_def)
  moreover have "is_boolean (newSettings st) ''enablePixelNoise''"
    by (rule bool [where d = False]) (simp add: DEFAULT_VIDEO_SETTINGS_def)
  moreover have "is_boolean (newSettings st) ''audioPreservesPitch''"
    by (rule bool [where d = True]) (simp add: DEFAULT_VIDEO_SETTINGS_def)
  ultimately show ?thesis
    by (simp add: valid_settings_def)
qed

text \<open>
  C1, as stated, fails for a persisted settings object: the stored text
  \<open>{"brightness":500,"contrast":"high"}\<close> is spread over the defaults as it is, so the
  resulting settings have brightness 500, outside \<open>[0, 200]\<close>, and a string for the
  contrast.
\<close>

theorem persisted_settings_counterexample:
  \<open>loadSettings (parses_as ''{"brightness":500,"contrast":"high"}''
       (JObj [(''brightness'', JNum (Fin 500)), (''contrast'', JStr ''high'')]))
     (Inr (Some ''{"brightness":500,"contrast":"high"}'')) ''brightness'' = Some (JNum (Fin 500)) \<and>
   loadSettings (parses_as ''{"brightness":500,"contrast":"high"}''
       (JObj [(''brightness'', JNum (Fin 500)), (''contrast'', JStr ''high'')]))
     (Inr (Some ''{"brightness":500,"contrast":"high"}'')) ''contrast'' = Some (JStr ''high'') \<and>
   \<not> valid_settings
     (loadSettings (parses_as ''{"brightness":500,"contrast":"high"}''
        (JObj [(''brightness'', JNum (Fin 500)), (''contrast'', JStr ''high'')]))
      (Inr (Some ''{"brightness":500,"contrast":"high"}'')))\<close>
  by (simp add: loadSettings_def parses_as_def valid_settings_def in_range_def map_add_def)

text \<open>
  C1 (amended): for every AI suggestion that is ingested, each numeric field of the
  resulting settings is a finite number within its documented range (brightness,
  contrast, saturation in \<open>[0, 200]\<close>, playbackSpeed in \<open>[0.5, 2]\<close>, volume in
  \<open>[0, 100]\<close>) and each boolean field is a boolean; a field is the suggested value clamped
  to its range when the suggestion has it with the basic type of the default, and the
  default otherwise. A persisted settings object is not validated: its own properties
  replace the defaults as they are.
\<close>

theorem suggestion_ingestion_amended:
  "(ingest_suggestion suggested = Inr st \<longrightarrow>
      valid_settings (newSettings st) \<and>
      (\<forall>(key, dflt) \<in> set DEFAULT_VIDEO_SETTINGS.
         newSettings st key = Some (spec_field suggested key dflt))) \<and>
   (saved \<noteq> [] \<and> JSON_parse saved = Inr parsed \<longrightarrow>
      loadSettings JSON_parse (Inr (Some saved)) = map_of DEFAULT_VIDEO_SETTINGS ++ spread parsed)"
  using ingest_suggestion_valid ingest_suggestion_fields
  by (auto simp: loadSettings_def)

lemma spec_scenario_ingested:
  "\<exists>st. ingest_suggestion spec_scenario = Inr st \<and> \<not> allFieldsValid st \<and>
     newSettings st ''brightness'' = Some (JNum (Fin 200)) \<and>
     newSettings st ''contrast'' = Some (JNum (Fin 100)) \<and>
     newSettings st ''volume'' = Some (JNum (Fin 80))"
  by (simp add: ingest_suggestion_def spec_scenario_def DEFAULT_VIDEO_SETTINGS_def ranges_def
      get_property_def Math_max_def Math_min_def Let_def)

lemma handle_parse_failure:
  assumes "aiAvailable" "js_trim (geminiPrompt a) \<noteq> []" "JSON_parse (extract_json text) = Inl e"
  shows "handleSuggestSettings aiAvailable JSON_parse (Replied text) a =
         a\<lparr>isSuggestingSettings := False, geminiError := Some (failure_message e)\<rparr>"
  using assms by (simp add: handleSuggestSettings_def)




lemma extract_json_fenced: "extract_json ''```json {nope ```'' = ''{nope''"
  by (simp add: extract_json_def js_trim_def trimStart_def trimEnd_def is_space_def
      fence_group_def fence_def)

lemma adjusted_prompt: "js_trim (geminiPrompt adjusted) \<noteq> []"
  by (simp add: adjusted_def js_trim_def trimStart_def trimEnd_def is_space_def)

text \<open>
  C8: when the reply's text, after the optional code fence is stripped, does not parse as
  JSON, the handler only sets the error message of the suggestion (and clears the busy
  flag): the current settings and the state of the processor, and so every render that
  is running or will be started, are what they were.
\<close>

theorem malformed_suggestion_fails_alone:
  "aiAvailable \<and> js_trim (geminiPrompt a) \<noteq> [] \<and> JSON_parse (extract_json text) = Inl e \<longrightarrow>
     handleSuggestSettings aiAvailable JSON_parse (Replied text) a =
       a\<lparr>isSuggestingSettings := False, geminiError := Some (failure_message e)\<rparr> \<and>
     geminiError (handleSuggestSettings aiAvailable JSON_parse (Replied text) a) =
       Some (failure_message e) \<and>
     currentSettings (handleSuggestSettings aiAvailable JSON_parse (Replied text) a) =
       currentSettings a \<and>
     processor (handleSuggestSettings aiAvailable JSON_parse (Replied text) a) = processor a"
  by (simp add: handle_parse_failure)

text \<open>
  A fenced reply that is not JSON: the message names the parser's error, the settings of
  the user and the processor are untouched.
\<close>

theorem malformed_suggestion_witness:
  "geminiError
     (handleSuggestSettings True (parses_as ''null'' JNull) (Replied ''```json {nope ```'') adjusted) =
     Some ''Failed to get AI suggestions: Unexpected token. Please try again or adjust settings manually.'' \<and>
   currentSettings
     (handleSuggestSettings True (parses_as ''null'' JNull) (Replied ''```json {nope ```'') adjusted) =
     currentSettings adjusted \<and>
   processor
     (handleSuggestSettings True (parses_as ''null'' JNull) (Replied ''```json {nope ```'') adjusted) =
     idle"
proof -
  have "parses_as ''null'' JNull (extract_json ''```json {nope ```'') =
        Inl (SyntaxError ''Unexpected token'')"
    by (simp add: extract_json_fenced parses_as_def)
  with adjusted_prompt
    malformed_suggestion_fails_alone [of True adjusted "parses_as ''null'' JNull"
      "''```json {nope ```''" "SyntaxError ''Unexpected token''"]
  show ?thesis
    by (simp add: failure_message_def adjusted_def)
qed



text \<open>
  The specification's scenario (brightness 500, contrast \<open>"high"\<close>) is ingested with
  brightness 200 and the default contrast; a persisted brightness of 500 stays 500.
\<close>

theorem suggestion_ingestion_witness:
  \<open>(\<exists>st. ingest_suggestion spec_scenario = Inr st \<and> valid_settings (newSettings st) \<and>
      newSettings st ''brightness'' = Some (JNum (Fin 200)) \<and>
      newSettings st ''contrast'' = Some (JNum (Fin 100))) \<and>
   loadSettings (parses_as ''{"brightness":500}'' (JObj [(''brightness'', JNum (Fin 500))]))
     (Inr (Some ''{"brightness":500}'')) ''brightness'' = Some (JNum (Fin 500))\<close>
proof -
  obtain st where st: "ingest_suggestion spec_scenario = Inr st"
    "newSettings st ''brightness'' = Some (JNum (Fin 200))"
    "newSettings st ''contrast'' = Some (JNum (Fin 100))"
    using spec_scenario_ingested by blast
  have p: \<open>''{"brightness":500}'' \<noteq> [] \<and>
      parses_as ''{"brightness":500}'' (JObj [(''brightness'', JNum (Fin 500))])
        ''{"brightness":500}'' = Inr (JObj [(''brightness'', JNum (Fin 500))])\<close>
    by (simp add: parses_as_def)
  from st p
    suggestion_ingestion_amended [of spec_scenario st \<open>''{"brightness":500}''\<close>
      \<open>parses_as ''{"brightness":500}'' (JObj [(''brightness'', JNum (Fin 500))])\<close>
      \<open>JObj [(''brightness'', JNum (Fin 500))]\<close>]
  show ?thesis
    by (auto simp: map_add_def)
qed

lemma spec_scenario_callable: "callable spec_scenario"
  by (simp add: spec_scenario_def)


section \<open>Theorems: the processing hook\<close>

subsection \<open>Teardown\<close>

lemma cleanup_eq: "cleanup s = Inr (after_cleanup s)"
  by (cases "mediaRecorderRef s"; cases "sourceVideoRef s"; cases "canvasRef s";
      cases "audioContextRef s")
    (auto simp: cleanup_def after_cleanup_def cleanup_calls_def recorder_stop_def emit_def Let_def)

lemma teardown_eq: "teardown s = after_cleanup s"
  by (simp add: teardown_def cleanup_eq)

lemma released_after_cleanup: "released (after_cleanup s)"
  by (simp add: released_def after_cleanup_def)

lemma after_cleanup_released: "released s \<Longrightarrow> after_cleanup s = s"
  by (auto simp: released_def after_cleanup_def cleanup_calls_def)

subsection \<open>Setup\<close>

lemma processVideo_progress: "progress (processVideo env s) = 0"
  by (simp add: processVideo_def abort_def settle_def teardown_eq after_cleanup_def setProgress_def
      Let_def split: option.splits)

lemma processVideo_ok:
  assumes "getContext_2d env" "\<not> AudioContext_throws env"
  shows "sourceVideoRef (processVideo env s) = Some (new_video\<lparr>src_attached := True\<rparr>)"
    and "canvasRef (processVideo env s) = Some new_canvas"
    and "audioContextRef (processVideo env s) = Some (initial_audio_state env)"
    and "mediaRecorderRef (processVideo env s) = None"
    and "recordedChunksRef (processVideo env s) = []"
    and "rotationAngle1Ref (processVideo env s) = 0"
    and "rotationAngle2Ref (processVideo env s) = pi / 2"
    and "promise (processVideo env s) = None"
    and "processingError (processVideo env s) = None"
    and "isProcessing (processVideo env s)"
    and "progress_history (processVideo env s) = progress_history s @ [0]"
    and "painted (processVideo env s) = painted s"
    and "effects (processVideo env s) = effects s @ cleanup_calls s"
  using assms
  by (simp_all add: processVideo_def teardown_eq after_cleanup_def setProgress_def Let_def
      cleanup_calls_def)

lemma onloadedmetadata_ok:
  assumes "sourceVideoRef s = Some (new_video\<lparr>src_attached := True\<rparr>)"
    and "canvasRef s = Some new_canvas" and "audioContextRef s = Some a"
    and "isTypeSupported env mimeType_wanted" "MediaRecorder_throws env = None"
    and "play_rejects env = None"
  shows "sourceVideoRef (onloadedmetadata env settings s) = Some (session_video env settings)"
    and "canvasRef (onloadedmetadata env settings s) =
           Some \<lparr>width = videoWidth env, height = videoHeight env\<rparr>"
    and "audioContextRef (onloadedmetadata env settings s) = Some a"
    and "mediaRecorderRef (onloadedmetadata env settings s) =
           Some \<lparr>state = Recording, tracks = session_tracks env settings,
                 mimeType = mimeType_wanted\<rparr>"
    and "recordedChunksRef (onloadedmetadata env settings s) = []"
    and "rotationAngle1Ref (onloadedmetadata env settings s) = rotationAngle1Ref s"
    and "rotationAngle2Ref (onloadedmetadata env settings s) = rotationAngle2Ref s"
    and "promise (onloadedmetadata env settings s) = promise s"
    and "processingError (onloadedmetadata env settings s) = processingError s"
    and "isProcessing (onloadedmetadata env settings s) = isProcessing s"
    and "progress (onloadedmetadata env settings s) = progress s"
    and "progress_history (onloadedmetadata env settings s) = progress_history s"
    and "painted (onloadedmetadata env settings s) = painted s"
    and "effects (onloadedmetadata env settings s) =
           effects s @
           (case (audio_present env, audio_graph_throws env) of
              (True, Some audioErr) \<Rightarrow> [ConsoleWarn (''Could not process audio track: '' @ audioErr)]
            | _ \<Rightarrow> []) @
           [CaptureStream FPS, IsTypeSupported mimeType_wanted True,
            NewMediaRecorder (session_tracks env settings) mimeType_wanted,
            RecorderStart, VideoPlay]"
  using assms
  by (auto simp: onloadedmetadata_def emit_def Let_def session_video_def session_tracks_def
      new_video_def new_canvas_def split: option.splits)

lemma video_onplay_fields:
  "sourceVideoRef (video_onplay s) = sourceVideoRef s"
  "canvasRef (video_onplay s) = canvasRef s"
  "mediaRecorderRef (video_onplay s) = mediaRecorderRef s"
  "recordedChunksRef (video_onplay s) = recordedChunksRef s"
  "rotationAngle1Ref (video_onplay s) = rotationAngle1Ref s"
  "rotationAngle2Ref (video_onplay s) = rotationAngle2Ref s"
  "promise (video_onplay s) = promise s"
  "processingError (video_onplay s) = processingError s"
  "isProcessing (video_onplay s) = isProcessing s"
  "progress (video_onplay s) = progress s"
  "progress_history (video_onplay s) = progress_history s"
  "painted (video_onplay s) = painted s"
  by (simp_all add: video_onplay_def requestAnimationFrame_def emit_def Let_def
      split: option.splits audio_state.splits)

lemma started_fields:
  assumes "sound_platform env"
  shows "sourceVideoRef (started env settings s) = Some (session_video env settings)"
    and "canvasRef (started env settings s) =
           Some \<lparr>width = videoWidth env, height = videoHeight env\<rparr>"
    and "mediaRecorderRef (started env settings s) =
           Some \<lparr>state = Recording, tracks = session_tracks env settings,
                 mimeType = mimeType_wanted\<rparr>"
    and "recordedChunksRef (started env settings s) = []"
    and "rotationAngle1Ref (started env settings s) = 0"
    and "rotationAngle2Ref (started env settings s) = pi / 2"
    and "promise (started env settings s) = None"
    and "processingError (started env settings s) = None"
    and "isProcessing (started env settings s)"
    and "progress (started env settings s) = 0"
    and "progress_history (started env settings s) = progress_history s @ [0]"
    and "painted (started env settings s) = painted s"
proof -
  from assms have p: "getContext_2d env" "\<not> AudioContext_throws env"
    and m: "isTypeSupported env mimeType_wanted" "MediaRecorder_throws env = None"
      "play_rejects env = None"
    by (simp_all add: sound_platform_def)
  note a = processVideo_ok [OF p, of s]
  note b = onloadedmetadata_ok [OF a(1) a(2) a(3) m, of settings]
  show "sourceVideoRef (started env settings s) = Some (session_video env settings)"
    and "canvasRef (started env settings s) =
           Some \<lparr>width = videoWidth env, height = videoHeight env\<rparr>"
    and "mediaRecorderRef (started env settings s) =
           Some \<lparr>state = Recording, tracks = session_tracks env settings,
                 mimeType = mimeType_wanted\<rparr>"
    and "recordedChunksRef (started env settings s) = []"
    and "rotationAngle1Ref (started env settings s) = 0"
    and "rotationAngle2Ref (started env settings s) = pi / 2"
    and "promise (started env settings s) = None"
    and "processingError (started env settings s) = None"
    and "isProcessing (started env settings s)"
    and "progress (started env settings s) = 0"
    and "progress_history (started env settings s) = progress_history s @ [0]"
    and "painted (started env settings s) = painted s"
    by (simp_all add: started_def video_onplay_fields a b processVideo_progress)
qed

lemma started_playing:
  "sound_platform env \<Longrightarrow>
   playing \<lparr>width = videoWidth env, height = videoHeight env\<rparr> (source_duration env)
     (started env settings s)"
  by (simp add: playing_def started_fields session_video_def)

subsection \<open>One frame\<close>

lemma drawFrame_playing:
  assumes "sourceVideoRef s = Some v" "canvasRef s = Some cv" "\<not> paused v" "\<not> ended v"
  shows "sourceVideoRef (drawFrame settings random s) = Some v"
    and "canvasRef (drawFrame settings random s) = Some cv"
    and "mediaRecorderRef (drawFrame settings random s) = mediaRecorderRef s"
    and "recordedChunksRef (drawFrame settings random s) = recordedChunksRef s"
    and "promise (drawFrame settings random s) = promise s"
    and "processingError (drawFrame settings random s) = processingError s"
    and "isProcessing (drawFrame settings random s) = isProcessing s"
    and "rotationAngle1Ref (drawFrame settings random s) =
           (if enableRotatingLines settings then next_angle1 (rotationAngle1Ref s)
            else rotationAngle1Ref s)"
    and "rotationAngle2Ref (drawFrame settings random s) =
           (if enableRotatingLines settings then next_angle2 (rotationAngle2Ref s)
            else rotationAngle2Ref s)"
    and "progress_history (drawFrame settings random s) =
           progress_history s @ (case frame_progress v of Some p \<Rightarrow> [p] | None \<Rightarrow> [])"
    and "progress (drawFrame settings random s) =
           (case frame_progress v of Some p \<Rightarrow> p | None \<Rightarrow> progress s)"
    and "painted (drawFrame settings random s) =
           painted s @
           frame_cmds settings cv random (next_angle1 (rotationAngle1Ref s))
             (next_angle2 (rotationAngle2Ref s))"
  using assms
  by (simp_all add: drawFrame_def Let_def paint_def setProgress_def requestAnimationFrame_def
      emit_def frame_cmds_def next_angle1_def next_angle2_def split: option.splits)

lemma playback_at_fields:
  "canvasRef (playback_at t s) = canvasRef s"
  "mediaRecorderRef (playback_at t s) = mediaRecorderRef s"
  "recordedChunksRef (playback_at t s) = recordedChunksRef s"
  "promise (playback_at t s) = promise s"
  "processingError (playback_at t s) = processingError s"
  "isProcessing (playback_at t s) = isProcessing s"
  "rotationAngle1Ref (playback_at t s) = rotationAngle1Ref s"
  "rotationAngle2Ref (playback_at t s) = rotationAngle2Ref s"
  "progress_history (playback_at t s) = progress_history s"
  "progress (playback_at t s) = progress s"
  "painted (playback_at t s) = painted s"
  by (simp_all add: playback_at_def split: option.splits)

lemma playback_at_video:
  "sourceVideoRef s = Some v \<Longrightarrow> sourceVideoRef (playback_at t s) = Some (v\<lparr>currentTime := t\<rparr>)"
  by (simp add: playback_at_def)

lemma frame_playing:
  assumes "playing cv d s"
  shows "playing cv d (drawFrame settings random (playback_at t s))"
proof -
  from assms obtain v where v: "sourceVideoRef s = Some v" "\<not> paused v" "\<not> ended v"
    "duration v = d" "canvasRef s = Some cv"
    by (auto simp: playing_def)
  have "sourceVideoRef (drawFrame settings random (playback_at t s)) = Some (v\<lparr>currentTime := t\<rparr>)"
    and "canvasRef (drawFrame settings random (playback_at t s)) = Some cv"
    using v by (simp_all add: drawFrame_playing [where v = "v\<lparr>currentTime := t\<rparr>" and cv = cv]
        playback_at_video playback_at_fields)
  with v show ?thesis
    by (simp add: playing_def)
qed

lemma frame_step:
  assumes "playing cv d s"
  shows "mediaRecorderRef (drawFrame settings random (playback_at t s)) = mediaRecorderRef s"
    and "recordedChunksRef (drawFrame settings random (playback_at t s)) = recordedChunksRef s"
    and "promise (drawFrame settings random (playback_at t s)) = promise s"
    and "processingError (drawFrame settings random (playback_at t s)) = processingError s"
    and "isProcessing (drawFrame settings random (playback_at t s)) = isProcessing s"
    and "rotationAngle1Ref (drawFrame settings random (playback_at t s)) =
           (if enableRotatingLines settings then next_angle1 (rotationAngle1Ref s)
            else rotationAngle1Ref s)"
    and "rotationAngle2Ref (drawFrame settings random (playback_at t s)) =
           (if enableRotatingLines settings then next_angle2 (rotationAngle2Ref s)
            else rotationAngle2Ref s)"
    and "painted (drawFrame settings random (playback_at t s)) =
           painted s @
           frame_cmds settings cv random (next_angle1 (rotationAngle1Ref s))
             (next_angle2 (rotationAngle2Ref s))"
proof -
  from assms obtain v where v: "sourceVideoRef s = Some v" "\<not> paused v" "\<not> ended v"
    "duration v = d" "canvasRef s = Some cv"
    by (auto simp: playing_def)
  have a: "sourceVideoRef (playback_at t s) = Some (v\<lparr>currentTime := t\<rparr>)"
    using v(1) by (rule playback_at_video)
  have b: "canvasRef (playback_at t s) = Some cv"
    using v(5) by (simp add: playback_at_fields)
  have c: "\<not> paused (v\<lparr>currentTime := t\<rparr>)" "\<not> ended (v\<lparr>currentTime := t\<rparr>)"
    using v by simp_all
  note d = drawFrame_playing [OF a b c, of settings random]
  show "mediaRecorderRef (drawFrame settings random (playback_at t s)) = mediaRecorderRef s"
    and "recordedChunksRef (drawFrame settings random (playback_at t s)) = recordedChunksRef s"
    and "promise (drawFrame settings random (playback_at t s)) = promise s"
    and "processingError (drawFrame settings random (playback_at t s)) = processingError s"
    and "isProcessing (drawFrame settings random (playback_at t s)) = isProcessing s"
    and "rotationAngle1Ref (drawFrame settings random (playback_at t s)) =
           (if enableRotatingLines settings then next_angle1 (rotationAngle1Ref s)
            else rotationAngle1Ref s)"
    and "rotationAngle2Ref (drawFrame settings random (playback_at t s)) =
           (if enableRotatingLines settings then next_angle2 (rotationAngle2Ref s)
            else rotationAngle2Ref s)"
    and "painted (drawFrame settings random (playback_at t s)) =
           painted s @
           frame_cmds settings cv random (next_angle1 (rotationAngle1Ref s))
             (next_angle2 (rotationAngle2Ref s))"
    by (simp_all add: d playback_at_fields)
qed


subsection \<open>Runs of frames\<close>

lemma render_frames_playing:
  "playing cv d s \<Longrightarrow> playing cv d (render_frames settings frames s)"
proof (induction frames arbitrary: s)
  case Nil
  then show ?case by simp
next
  case (Cons f frames)
  obtain t random where f: "f = (t, random)"
    by (cases f)
  from Cons.prems have "playing cv d (drawFrame settings random (playback_at t s))"
    by (rule frame_playing)
  then show ?case
    by (simp add: f Cons.IH)
qed

lemma render_frames_kept:
  "playing cv d s \<Longrightarrow>
     mediaRecorderRef (render_frames settings frames s) = mediaRecorderRef s \<and>
     recordedChunksRef (render_frames settings frames s) = recordedChunksRef s \<and>
     promise (render_frames settings frames s) = promise s \<and>
     processingError (render_frames settings frames s) = processingError s \<and>
     isProcessing (render_frames settings frames s) = isProcessing s"
proof (induction frames arbitrary: s)
  case Nil
  then show ?case by simp
next
  case (Cons f frames)
  obtain t random where f: "f = (t, random)"
    by (cases f)
  from Cons.prems have "playing cv d (drawFrame settings random (playback_at t s))"
    by (rule frame_playing)
  from Cons.IH [OF this] frame_step [OF Cons.prems, of settings random t] show ?case
    by (simp add: f)
qed



subsection \<open>Phase angles\<close>











subsection \<open>Progress values\<close>




lemma stop_event:
  assumes "promise s = None"
  shows "progress (recorder_onstop (video_onended (playback_ends s))) = 100"
    and "progress_history (recorder_onstop (video_onended (playback_ends s))) =
           progress_history s @ [100]"
    and "promise (recorder_onstop (video_onended (playback_ends s))) =
           Some (Resolved \<lparr>parts = recordedChunksRef s, blob_type = mimeType_wanted\<rparr>)"
    and "processedVideoUrl (recorder_onstop (video_onended (playback_ends s))) =
           Some \<lparr>parts = recordedChunksRef s, blob_type = mimeType_wanted\<rparr>"
    and "processingError (recorder_onstop (video_onended (playback_ends s))) = processingError s"
    and "\<not> isProcessing (recorder_onstop (video_onended (playback_ends s)))"
    and "mediaRecorderRef (recorder_onstop (video_onended (playback_ends s))) = None"
  using assms
proof -
  define s1 where "s1 = video_onended (playback_ends s)"
  have s1: "promise s1 = None" "recordedChunksRef s1 = recordedChunksRef s"
    "progress_history s1 = progress_history s" "processingError s1 = processingError s"
    unfolding s1_def video_onended_def halt_loop_def playback_ends_def cancel_frame_def
      stop_if_recording_def emit_def
    using assms by (simp_all split: option.splits)
  show "progress (recorder_onstop (video_onended (playback_ends s))) = 100"
    and "progress_history (recorder_onstop (video_onended (playback_ends s))) =
           progress_history s @ [100]"
    and "promise (recorder_onstop (video_onended (playback_ends s))) =
           Some (Resolved \<lparr>parts = recordedChunksRef s, blob_type = mimeType_wanted\<rparr>)"
    and "processedVideoUrl (recorder_onstop (video_onended (playback_ends s))) =
           Some \<lparr>parts = recordedChunksRef s, blob_type = mimeType_wanted\<rparr>"
    and "processingError (recorder_onstop (video_onended (playback_ends s))) = processingError s"
    and "\<not> isProcessing (recorder_onstop (video_onended (playback_ends s)))"
    and "mediaRecorderRef (recorder_onstop (video_onended (playback_ends s))) = None"
    unfolding s1_def [symmetric]
    by (simp_all add: recorder_onstop_def cancel_frame_def setProgress_def settle_def emit_def
        Let_def s1)
qed


subsection \<open>The phase angles after a run of frames\<close>





lemma capable_sound: "sound_platform capable"
  by (simp add: sound_platform_def capable_def)





subsection \<open>The progress of a session\<close>






subsection \<open>Pixel noise\<close>








subsection \<open>Failures during setup\<close>

lemma started_audio:
  assumes "sound_platform env"
  shows "audioContextRef (started env settings s) =
         Some (if initial_audio_state env = Suspended then Running else initial_audio_state env)"
proof -
  from assms have p: "getContext_2d env" "\<not> AudioContext_throws env"
    and m: "isTypeSupported env mimeType_wanted" "MediaRecorder_throws env = None"
      "play_rejects env = None"
    by (simp_all add: sound_platform_def)
  note a = processVideo_ok [OF p, of s]
  note b = onloadedmetadata_ok(3) [OF a(1) a(2) a(3) m, of settings]
  show ?thesis
    by (simp add: started_def video_onplay_def requestAnimationFrame_def emit_def b Let_def
        split: audio_state.splits)
qed


lemma processVideo_no_audio_context:
  assumes "getContext_2d env" "AudioContext_throws env"
  shows "processingError (processVideo env s) = Some ''AudioContext not supported.''"
    and "promise (processVideo env s) = Some (Rejected ''AudioContext not supported.'')"
    and "\<not> isProcessing (processVideo env s)"
    and "released (processVideo env s)"
  using assms
  by (simp_all add: processVideo_def abort_def settle_def teardown_eq after_cleanup_def
      released_def setProgress_def Let_def)

lemma session_resolves:
  assumes "sound_platform env"
  shows "promise (session env settings frames s0) =
           Some (Resolved \<lparr>parts = [], blob_type = mimeType_wanted\<rparr>)"
    and "processingError (session env settings frames s0) = None"
    and "progress (session env settings frames s0) = 100"
proof -
  define s1 where "s1 = started env settings s0"
  define s2 where "s2 = render_frames settings frames s1"
  note f = started_fields [OF assms, of settings s0, folded s1_def]
  have p: "playing \<lparr>width = videoWidth env, height = videoHeight env\<rparr> (source_duration env) s1"
    unfolding s1_def using assms by (rule started_playing)
  have k2: "promise s2 = None" "recordedChunksRef s2 = []" "processingError s2 = None"
    unfolding s2_def using render_frames_kept [OF p, of settings frames] by (simp_all add: f)
  have ses: "session env settings frames s0 = recorder_onstop (video_onended (playback_ends s2))"
    by (simp add: session_def s2_def s1_def)
  note e = stop_event [OF k2(1)]
  show "promise (session env settings frames s0) =
           Some (Resolved \<lparr>parts = [], blob_type = mimeType_wanted\<rparr>)"
    unfolding ses e(3) k2(2) by (rule refl)
  show "processingError (session env settings frames s0) = None"
    unfolding ses e(5) by (rule k2(3))
  show "progress (session env settings frames s0) = 100"
    unfolding ses by (rule e(1))
qed

lemma setup_effects:
  assumes "sound_platform env"
  shows "effects (onloadedmetadata env settings (processVideo env s0)) =
           effects s0 @ cleanup_calls s0 @ audio_warning env @
           [CaptureStream FPS, IsTypeSupported mimeType_wanted True,
            NewMediaRecorder (session_tracks env settings) mimeType_wanted,
            RecorderStart, VideoPlay]"
    and "mediaRecorderRef (onloadedmetadata env settings (processVideo env s0)) =
           Some \<lparr>state = Recording, tracks = session_tracks env settings,
                 mimeType = mimeType_wanted\<rparr>"
    and "processingError (onloadedmetadata env settings (processVideo env s0)) = None"
    and "promise (onloadedmetadata env settings (processVideo env s0)) = None"
    and "isProcessing (onloadedmetadata env settings (processVideo env s0))"
proof -
  from assms have p: "getContext_2d env" "\<not> AudioContext_throws env"
    and m: "isTypeSupported env mimeType_wanted" "MediaRecorder_throws env = None"
      "play_rejects env = None"
    by (simp_all add: sound_platform_def)
  note a = processVideo_ok [OF p, of s0]
  note b = onloadedmetadata_ok [OF a(1) a(2) a(3) m, of settings]
  show "effects (onloadedmetadata env settings (processVideo env s0)) =
           effects s0 @ cleanup_calls s0 @ audio_warning env @
           [CaptureStream FPS, IsTypeSupported mimeType_wanted True,
            NewMediaRecorder (session_tracks env settings) mimeType_wanted,
            RecorderStart, VideoPlay]"
    by (simp add: b(14) a(13) audio_warning_def)
  show "mediaRecorderRef (onloadedmetadata env settings (processVideo env s0)) =
           Some \<lparr>state = Recording, tracks = session_tracks env settings,
                 mimeType = mimeType_wanted\<rparr>"
    by (rule b(4))
  show "processingError (onloadedmetadata env settings (processVideo env s0)) = None"
    by (simp add: b(9) a(9))
  show "promise (onloadedmetadata env settings (processVideo env s0)) = None"
    by (simp add: b(8) a(8))
  show "isProcessing (onloadedmetadata env settings (processVideo env s0))"
    by (simp add: b(10) a(10))
qed






text \<open>
  C6, as stated, fails when the audio API is not there: if the \<open>AudioContext\<close>
  constructor throws, the request is rejected with \<open>AudioContext not supported.\<close> and
  processing stops.
\<close>

theorem audio_context_failure_is_fatal:
  "processingError (processVideo no_audio_context idle) = Some ''AudioContext not supported.'' \<and>
   promise (processVideo no_audio_context idle) =
     Some (Rejected ''AudioContext not supported.'') \<and>
   isProcessing (processVideo no_audio_context idle) = False \<and>
   mediaRecorderRef (processVideo no_audio_context idle) = None"
proof -
  have "getContext_2d no_audio_context" "AudioContext_throws no_audio_context"
    by (simp_all add: no_audio_context_def capable_def)
  from processVideo_no_audio_context [OF this, of idle] show ?thesis
    by (simp add: released_def)
qed

text \<open>
  C6 (amended): on a platform whose setup otherwise succeeds, when no audio signal is
  positive, or the construction of the audio nodes throws, the recorder is started on
  the video track alone, no error is set and the request stays pending; a thrown
  exception is logged as a warning; and the session completes and resolves. When the
  \<open>AudioContext\<close> itself cannot be constructed, the request fails with
  \<open>AudioContext not supported.\<close>
\<close>

theorem audio_graph_failure_continues:
  "(sound_platform env \<and> (\<not> audio_present env \<or> audio_graph_throws env \<noteq> None) \<longrightarrow>
      mediaRecorderRef (onloadedmetadata env settings (processVideo env s0)) =
        Some \<lparr>state = Recording, tracks = [VideoTrack], mimeType = mimeType_wanted\<rparr> \<and>
      processingError (onloadedmetadata env settings (processVideo env s0)) = None \<and>
      promise (onloadedmetadata env settings (processVideo env s0)) = None \<and>
      isProcessing (onloadedmetadata env settings (processVideo env s0)) \<and>
      effects (onloadedmetadata env settings (processVideo env s0)) =
        effects s0 @ cleanup_calls s0 @
        (case (audio_present env, audio_graph_throws env) of
           (True, Some audioErr) \<Rightarrow> [ConsoleWarn (''Could not process audio track: '' @ audioErr)]
         | _ \<Rightarrow> []) @
        [CaptureStream FPS, IsTypeSupported mimeType_wanted True,
         NewMediaRecorder [VideoTrack] mimeType_wanted, RecorderStart, VideoPlay] \<and>
      promise (session env settings frames s0) =
        Some (Resolved \<lparr>parts = [], blob_type = mimeType_wanted\<rparr>) \<and>
      processingError (session env settings frames s0) = None) \<and>
   (getContext_2d env \<and> AudioContext_throws env \<longrightarrow>
      processingError (processVideo env s0) = Some ''AudioContext not supported.'' \<and>
      promise (processVideo env s0) = Some (Rejected ''AudioContext not supported.''))"
proof (rule conjI; rule impI)
  assume "getContext_2d env \<and> AudioContext_throws env"
  then show "processingError (processVideo env s0) = Some ''AudioContext not supported.'' \<and>
      promise (processVideo env s0) = Some (Rejected ''AudioContext not supported.'')"
    using processVideo_no_audio_context(1,2) [of env s0] by simp
next
  assume h: "sound_platform env \<and> (\<not> audio_present env \<or> audio_graph_throws env \<noteq> None)"
  then have env: "sound_platform env"
    and t: "session_tracks env settings = [VideoTrack]"
    by (auto simp: session_tracks_def)
  note s = setup_effects [OF env, of settings s0, unfolded t audio_warning_def]
  note r = session_resolves [OF env, of settings frames s0]
  show "mediaRecorderRef (onloadedmetadata env settings (processVideo env s0)) =
        Some \<lparr>state = Recording, tracks = [VideoTrack], mimeType = mimeType_wanted\<rparr> \<and>
      processingError (onloadedmetadata env settings (processVideo env s0)) = None \<and>
      promise (onloadedmetadata env settings (processVideo env s0)) = None \<and>
      isProcessing (onloadedmetadata env settings (processVideo env s0)) \<and>
      effects (onloadedmetadata env settings (processVideo env s0)) =
        effects s0 @ cleanup_calls s0 @
        (case (audio_present env, audio_graph_throws env) of
           (True, Some audioErr) \<Rightarrow> [ConsoleWarn (''Could not process audio track: '' @ audioErr)]
         | _ \<Rightarrow> []) @
        [CaptureStream FPS, IsTypeSupported mimeType_wanted True,
         NewMediaRecorder [VideoTrack] mimeType_wanted, RecorderStart, VideoPlay] \<and>
      promise (session env settings frames s0) =
        Some (Resolved \<lparr>parts = [], blob_type = mimeType_wanted\<rparr>) \<and>
      processingError (session env settings frames s0) = None"
    by (intro conjI s(2) s(3) s(4) s(5) s(1) r(1) r(2))
qed

lemma failing_audio_facts:
  "sound_platform failing_audio" "audio_present failing_audio"
  "audio_graph_throws failing_audio = Some ''NotSupportedError''"
  by (simp_all add: failing_audio_def capable_def sound_platform_def audio_present_def)

text \<open>
  A platform that reports an audio track and throws \<open>NotSupportedError\<close> while the nodes
  are built, and one without an audio context.
\<close>

theorem audio_graph_failure_witness:
  "effects (onloadedmetadata failing_audio neutral (processVideo failing_audio idle)) =
     [ConsoleWarn ''Could not process audio track: NotSupportedError'', CaptureStream 30,
      IsTypeSupported mimeType_wanted True, NewMediaRecorder [VideoTrack] mimeType_wanted,
      RecorderStart, VideoPlay] \<and>
   processingError (session failing_audio neutral [(5, steady 0)] idle) = None \<and>
   promise (session failing_audio neutral [(5, steady 0)] idle) =
     Some (Resolved \<lparr>parts = [], blob_type = mimeType_wanted\<rparr>) \<and>
   processingError (processVideo no_audio_context idle) = Some ''AudioContext not supported.''"
proof -
  have b: "cleanup_calls idle = []" "effects idle = []"
    by (simp_all add: cleanup_calls_def idle_def)
  have c: "getContext_2d no_audio_context \<and> AudioContext_throws no_audio_context"
    by (simp add: no_audio_context_def capable_def)
  from failing_audio_facts c
    audio_graph_failure_continues [of failing_audio neutral idle "[(5, steady 0)]"]
    audio_graph_failure_continues [of no_audio_context neutral idle "[]"]
  show ?thesis
    by (simp add: b FPS_def)
qed

subsection \<open>Noise marks of a frame, and teardown\<close>







text \<open>
  C7: \<open>cleanup\<close> never throws; after it every ref is cleared (an audio context that was
  closed before stays referenced and is not closed again); the recorder is stopped only
  when it is recording and the audio context is closed only when it is not closed; a
  second call right after changes nothing and makes no call; and with nothing active the
  routine changes nothing.
\<close>

theorem cleanup_idempotent:
  "\<exists>s'. cleanup s = Inr s' \<and> released s' \<and>
        (audioContextRef s \<noteq> Some Closed \<longrightarrow> audioContextRef s' = None) \<and>
        effects s' = effects s @ cleanup_calls s \<and>
        cleanup s' = Inr s' \<and>
        (released s \<longrightarrow> s' = s)"
proof (intro exI conjI)
  show "cleanup s = Inr (after_cleanup s)"
    by (rule cleanup_eq)
  show "released (after_cleanup s)"
    by (rule released_after_cleanup)
  show "audioContextRef s \<noteq> Some Closed \<longrightarrow> audioContextRef (after_cleanup s) = None"
    by (simp add: after_cleanup_def)
  show "effects (after_cleanup s) = effects s @ cleanup_calls s"
    by (simp add: after_cleanup_def)
  show "cleanup (after_cleanup s) = Inr (after_cleanup s)"
    using after_cleanup_released [OF released_after_cleanup, of s] cleanup_eq [of "after_cleanup s"]
    by simp
  show "released s \<longrightarrow> after_cleanup s = s"
    by (simp add: after_cleanup_released)
qed

text \<open>
  Tearing down a running session, and the hook at rest.
\<close>

theorem cleanup_idempotent_witness:
  "(\<exists>s'. cleanup (started capable neutral idle) = Inr s' \<and> released s' \<and>
         audioContextRef s' = None \<and> cleanup s' = Inr s') \<and>
   cleanup idle = Inr idle"
proof -
  have a: "audioContextRef (started capable neutral idle) \<noteq> Some Closed"
    using started_audio [OF capable_sound, of neutral idle] by (simp add: capable_def)
  have r: "released idle"
    by (simp add: released_def idle_def)
  from cleanup_idempotent [of "started capable neutral idle"] a
  have one: "\<exists>s'. cleanup (started capable neutral idle) = Inr s' \<and> released s' \<and>
         audioContextRef s' = None \<and> cleanup s' = Inr s'"
    by blast
  from cleanup_idempotent [of idle] r have two: "cleanup idle = Inr idle"
    by auto
  from one two show ?thesis
    by (rule conjI)
qed

subsection \<open>The hook never references a closed audio context\<close>

lemma context_open_kept:
  assumes "context_open s"
  shows "context_open (after_cleanup s)"
    and "initial_audio_state env \<noteq> Closed \<Longrightarrow> context_open (processVideo env s)"
    and "context_open (onloadedmetadata env settings s)"
    and "context_open (video_onplay s)"
    and "context_open (playback_at t s)"
    and "context_open (drawFrame settings random s)"
    and "context_open (playback_ends s)"
    and "context_open (video_onended s)"
    and "context_open (ondataavailable data s)"
    and "context_open (recorder_onstop s)"
proof -
  show "context_open (after_cleanup s)"
    using assms by (simp add: context_open_def after_cleanup_def)
  show "context_open (processVideo env s)" if "initial_audio_state env \<noteq> Closed"
    using that assms
    by (simp add: context_open_def processVideo_def abort_def settle_def teardown_eq
        after_cleanup_def setProgress_def Let_def split: option.splits)
  show "context_open (onloadedmetadata env settings s)"
    using assms
    by (auto simp: context_open_def onloadedmetadata_def abort_def settle_def teardown_eq
        after_cleanup_def stop_if_recording_def emit_def Let_def split: option.splits)
  show "context_open (video_onplay s)"
    using assms
    by (simp add: context_open_def video_onplay_def requestAnimationFrame_def emit_def Let_def
        split: option.splits audio_state.splits)
  show "context_open (playback_at t s)"
    using assms by (simp add: context_open_def playback_at_def split: option.splits)
  show "context_open (drawFrame settings random s)"
    using assms
    by (simp add: context_open_def drawFrame_def halt_loop_def cancel_frame_def
        stop_if_recording_def paint_def setProgress_def requestAnimationFrame_def emit_def
        Let_def split: option.splits)
  show "context_open (playback_ends s)"
    using assms by (simp add: context_open_def playback_ends_def split: option.splits)
  show "context_open (video_onended s)"
    using assms
    by (simp add: context_open_def video_onended_def halt_loop_def cancel_frame_def
        stop_if_recording_def emit_def split: option.splits)
  show "context_open (ondataavailable data s)"
    using assms by (simp add: context_open_def ondataavailable_def)
  show "context_open (recorder_onstop s)"
    using assms
    by (simp add: context_open_def recorder_onstop_def cancel_frame_def setProgress_def
        settle_def emit_def Let_def split: option.splits)
qed

lemma context_open_released:
  "context_open s \<Longrightarrow> audioContextRef (after_cleanup s) = None"
  by (simp add: context_open_def after_cleanup_def)

section \<open>Theorems: the download name\<close>

lemma takeWhile_stem: "c \<notin> set a \<Longrightarrow> takeWhile (\<lambda>x. x \<noteq> c) (a @ c # b) = a"
  by (induction a) auto

lemma dropWhile_stem: "c \<notin> set a \<Longrightarrow> dropWhile (\<lambda>x. x \<noteq> c) (a @ c # b) = c # b"
  by (induction a) auto

lemma spec_basename_one_dot:
  assumes "count_list n CHR ''.'' \<le> 1"
  shows "spec_basename n = split_first CHR ''.'' n"
proof (cases "CHR ''.'' \<in> set n")
  case False
  then have "split_first CHR ''.'' n = n"
    unfolding split_first_def by (induction n) auto
  moreover have "spec_basename n = n"
    using False by (simp add: spec_basename_def)
  ultimately show ?thesis by simp
next
  case True
  then obtain a b where n: "n = a @ CHR ''.'' # b" and a: "CHR ''.'' \<notin> set a"
    by (meson split_list_first)
  from assms n have "count_list b CHR ''.'' = 0"
    by simp
  then have b: "CHR ''.'' \<notin> set b"
    by (simp add: count_list_0_iff)
  have "dropWhile (\<lambda>c. c \<noteq> CHR ''.'') (rev n) = CHR ''.'' # rev a"
    using b dropWhile_stem [of "CHR ''.''" "rev b" "rev a"] by (simp add: n)
  then have "spec_basename n = a"
    using True by (simp add: spec_basename_def)
  moreover have "split_first CHR ''.'' n = a"
    unfolding split_first_def n using a by (rule takeWhile_stem)
  ultimately show ?thesis by simp
qed

text \<open>
  C9, as stated, fails: for the file name \<open>.mp4\<close> the text before the first dot is empty,
  the \<open>|| 'video'\<close> guard takes over and the anchor offers \<open>modified_video.webm\<close>, which is
  not \<open>modified_\<close>, the name without its final extension, \<open>.webm\<close>.
\<close>

theorem download_name_counterexample:
  "download_name (Some ''.mp4'') = ''modified_video.webm'' \<and>
   ''.mp4'' \<noteq> [] \<and>
   download_name (Some ''.mp4'') \<noteq> spec_download_name ''.mp4''"
  by (simp add: download_name_def split_first_def spec_download_name_def spec_basename_def)

text \<open>
  The name is cut at the first dot, so a name with several dots keeps only its first
  segment.
\<close>

lemma download_name_several_dots:
  "download_name (Some ''my.video.mp4'') = ''modified_my.webm''"
  by (simp add: download_name_def split_first_def)

text \<open>
  C9 (amended): for a file name with at most one dot whose part before the dot is not
  empty, the download name is \<open>modified_\<close>, then the name without its extension, then
  \<open>.webm\<close>; when the part before the first dot is empty (or there is no file) the
  download name is \<open>modified_video.webm\<close>.
\<close>

theorem download_name_amended:
  "(count_list n CHR ''.'' \<le> 1 \<and> split_first CHR ''.'' n \<noteq> [] \<longrightarrow>
      download_name (Some n) = spec_download_name n) \<and>
   (split_first CHR ''.'' n = [] \<longrightarrow> download_name (Some n) = ''modified_video.webm'') \<and>
   download_name None = ''modified_video.webm''"
  by (simp add: download_name_def spec_download_name_def spec_basename_one_dot)

theorem download_name_amended_witness:
  "download_name (Some ''clip.mp4'') = ''modified_clip.webm'' \<and>
   download_name (Some ''.mp4'') = ''modified_video.webm''"
proof -
  have one: "count_list ''clip.mp4'' CHR ''.'' \<le> 1 \<and> split_first CHR ''.'' ''clip.mp4'' \<noteq> []"
    by (simp add: split_first_def)
  have none: "split_first CHR ''.'' ''.mp4'' = []"
    by (simp add: split_first_def)
  have "spec_download_name ''clip.mp4'' = ''modified_clip.webm''"
    by (simp add: spec_download_name_def spec_basename_def)
  with one none download_name_amended [of "''clip.mp4''"] download_name_amended [of "''.mp4''"]
  show ?thesis by simp
qed

end
